theory Spec2Isabelle
  imports Complex_Main
begin

section \<open>JavaScript values\<close>

text \<open>
  The sources are TypeScript. Three features of the language decide claims and are made
  explicit here.
  \<^item> An object or array has an identity: \<open>!=\<close> between two objects compares the
    identities, not the contents. A value that is an object or \<open>undefined\<close> is a
    \<open>js_object\<close>: \<open>Absent\<close>, or \<open>Obj r v\<close> with its address \<open>r\<close> and contents \<open>v\<close>.
  \<^item> A number tested as a condition is falsy when it is \<open>0\<close> or \<open>NaN\<close>; a string when it
    is empty; \<open>undefined\<close> always. An optional number is an \<open>int option\<close>.
  \<^item> An exception leaves the assignments made before it in place. A block that may throw
    returns a \<open>run\<close>: the state it reached, and whether it threw.
\<close>

type_synonym ref = nat

datatype 'a js_object = Absent | Obj ref 'a

text \<open>The operator \<open>!=\<close> on two values that are objects or \<open>undefined\<close>.\<close>

fun js_neq :: "'a js_object \<Rightarrow> 'a js_object \<Rightarrow> bool" where
  "js_neq Absent Absent = False"
| "js_neq (Obj r v) (Obj r' v') = (r \<noteq> r')"
| "js_neq Absent (Obj r' v') = True"
| "js_neq (Obj r v) Absent = True"

text \<open>Truthiness of an optional integer (\<open>knownLastModified?: number\<close>).\<close>

fun truthy :: "int option \<Rightarrow> bool" where
  "truthy None = False"
| "truthy (Some n) = (n \<noteq> 0)"

text \<open>The operator \<open>==\<close> between a number and an optional number.\<close>

fun js_eq_opt :: "int \<Rightarrow> int option \<Rightarrow> bool" where
  "js_eq_opt n None = False"
| "js_eq_opt n (Some m) = (n = m)"

text \<open>
  What can go wrong: a TypeError thrown by the code itself (a property read on
  \<open>undefined\<close>), \<open>statSync\<close> that throws, \<open>scanDirectory\<close> that rejects.
\<close>

datatype error = TypeError | StatError | ScanError

section \<open>The records of the media, and the entities of GalleryManager.ts\<close>

record MediaDimension =
  width :: int
  height :: int

record CameraMetadata =
  make' :: "string option"
  model :: "string option"
  lens :: "string option"
  ISO :: "int option"
  focalLength :: "real option"
  exposure :: "real option"
  fStop :: "real option"

record GPSMetadata =
  latitude :: "real option"
  longitude :: "real option"

record PositionMetaData =
  country :: "string option"
  state :: "string option"
  city :: "string option"
  GPSData :: "GPSMetadata option"

text \<open>
  The metadata of a photo as GalleryManager sees it: \<open>keywords\<close>, \<open>cameraData\<close>,
  \<open>positionData\<close> and \<open>size\<close> are objects, compared by \<open>!=\<close> in \<open>indexDirectory\<close>.
\<close>

record EntityMetadata =
  e_keywords :: "string list js_object"
  e_cameraData :: "CameraMetadata js_object"
  e_positionData :: "PositionMetaData js_object"
  e_size :: "MediaDimension js_object"
  e_creationDate :: int

text \<open>
  A link from an entity to a directory (\<open>photo.directory\<close>, \<open>directory.parent\<close>):
  \<open>NoDirectory\<close> is \<open>null\<close> or \<open>undefined\<close> (a relation that was not loaded), otherwise the
  name, path and id of the directory linked.
\<close>

datatype dir_link = NoDirectory | DirectoryOf string string "nat option"

record Photo =
  photo_id :: "nat option"
  photo_name :: string
  photo_directory :: dir_link
  photo_metadata :: EntityMetadata
  readyThumbnails :: "nat list"
  readyIcon :: bool

record DirectoryFields =
  dir_id :: "nat option"
  dir_name :: string
  dir_path :: string
  dir_parent :: dir_link
  scanned :: bool
  lastModified :: int
  lastScanned :: int
  isPartial :: bool
  photos :: "Photo list"

datatype Directory = Directory (fields_of: DirectoryFields) (directories: "Directory list")

definition link_of :: "Directory \<Rightarrow> dir_link" where
  "link_of d = DirectoryOf (dir_name (fields_of d)) (dir_path (fields_of d)) (dir_id (fields_of d))"

text \<open>
  Modelled from the spec: the enum \<open>ReIndexingSensitivity\<close> is declared in
  \<open>IPrivateConfig\<close>, which is not among the sources; the spec gives the levels
  low, medium, high, in that order, and the code compares them with \<open>>=\<close>.
\<close>

datatype ReIndexingSensitivity = low | medium | high

fun level :: "ReIndexingSensitivity \<Rightarrow> nat" where
  "level low = 1"
| "level medium = 2"
| "level high = 3"

record IndexingConfig =
  reIndexingSensitivity :: ReIndexingSensitivity
  cachedFolderTimeout :: int
  folderPreviewSize :: nat

section \<open>GalleryManager.indexDirectory\<close>

text \<open>
  The store is an external collaborator. What \<open>indexDirectory\<close> reads from it (the three
  queries) is an input of the model; what it writes is the list of repository calls it
  makes, in order, each with its argument. The model covers the runs in which the store
  answers every call.
\<close>

datatype db_call =
    SaveDirectory Directory
  | SavePhotos "Photo list"
  | RemoveDirectories "Directory list"
  | RemovePhotos "Photo list"

text \<open>
  The inner loops of \<open>indexDirectory\<close>: the first entry of the indexed list that
  satisfies the test is taken out of the list (\<open>splice(j, 1); break\<close>).
\<close>

fun takeFirst :: "('a \<Rightarrow> bool) \<Rightarrow> 'a list \<Rightarrow> 'a option \<times> 'a list" where
  "takeFirst P [] = (None, [])"
| "takeFirst P (x # xs) =
     (if P x then (Some x, xs)
      else (case takeFirst P xs of (found, rest) \<Rightarrow> (found, x # rest)))"

text \<open>
  The loop over \<open>scannedDirectory.directories\<close> (lines 141-170). The state is the list of
  indexed directories not matched yet, the calls made so far and the next id the store
  gives out. A matched directory whose \<open>parent\<close> was not loaded makes
  \<open>!directory.parent && !directory.parent.id\<close> read \<open>id\<close> of \<open>undefined\<close>: a TypeError,
  which ends the run; with a parent loaded the condition is false and nothing is saved.
\<close>

fun indexChildDirectories ::
  "dir_link \<Rightarrow> Directory list \<Rightarrow> Directory list \<Rightarrow> db_call list \<Rightarrow> nat \<Rightarrow>
   error option \<times> Directory list \<times> db_call list \<times> nat" where
  "indexChildDirectories parentDir [] indexed made nid = (None, indexed, made, nid)"
| "indexChildDirectories parentDir (sd # rest) indexed made nid =
     (case takeFirst (\<lambda>d. dir_name (fields_of d) = dir_name (fields_of sd)) indexed of
        (Some directory, indexed') \<Rightarrow>
          (case dir_parent (fields_of directory) of
             NoDirectory \<Rightarrow> (Some TypeError, indexed', made, nid)
           | DirectoryOf n p i \<Rightarrow> indexChildDirectories parentDir rest indexed' made nid)
      | (None, indexed') \<Rightarrow>
          (let child = Directory ((fields_of sd)\<lparr>dir_parent := parentDir, scanned := False\<rparr>)
                         (directories sd);
               d = DirectoryOf (dir_name (fields_of sd)) (dir_path (fields_of sd))
                     (case dir_id (fields_of sd) of None \<Rightarrow> Some nid | Some i \<Rightarrow> Some i);
               ps = map (\<lambda>p. p\<lparr>photo_directory := d\<rparr>) (photos (fields_of sd))
           in indexChildDirectories parentDir rest indexed'
                (made @ [SaveDirectory child, SavePhotos ps])
                (case dir_id (fields_of sd) of None \<Rightarrow> Suc nid | Some i \<Rightarrow> nid)))"

text \<open>
  \<open>Utils.clone\<close> is not among the sources; it is taken to be a deep copy, so every nested
  object of the copy is a new object. The copies get the addresses \<open>r\<close>, \<open>r + 1\<close>,
  \<open>r + 2\<close>, \<open>r + 3\<close>, which the caller takes from the allocator.
\<close>

fun readdress :: "ref \<Rightarrow> 'a js_object \<Rightarrow> 'a js_object" where
  "readdress r Absent = Absent"
| "readdress r (Obj r' v) = Obj r v"

definition clone :: "ref \<Rightarrow> Photo \<Rightarrow> Photo" where
  "clone r p = p\<lparr>photo_metadata :=
     (photo_metadata p)\<lparr>
        e_keywords := readdress r (e_keywords (photo_metadata p)),
        e_cameraData := readdress (r + 1) (e_cameraData (photo_metadata p)),
        e_positionData := readdress (r + 2) (e_positionData (photo_metadata p)),
        e_size := readdress (r + 3) (e_size (photo_metadata p))\<rparr>\<rparr>"

text \<open>The condition of lines 202-205: four comparisons with \<open>!=\<close>.\<close>

definition metadata_differs :: "EntityMetadata \<Rightarrow> EntityMetadata \<Rightarrow> bool" where
  "metadata_differs a b =
     (js_neq (e_keywords a) (e_keywords b) \<or>
      js_neq (e_cameraData a) (e_cameraData b) \<or>
      js_neq (e_positionData a) (e_positionData b) \<or>
      js_neq (e_size a) (e_size b))"

text \<open>Lines 207-210: the four fields of the entity are set to the scanned objects.\<close>

definition take_metadata :: "Photo \<Rightarrow> EntityMetadata \<Rightarrow> Photo" where
  "take_metadata photo m = photo\<lparr>photo_metadata :=
     (photo_metadata photo)\<lparr>
        e_keywords := e_keywords m,
        e_cameraData := e_cameraData m,
        e_positionData := e_positionData m,
        e_size := e_size m\<rparr>\<rparr>"

text \<open>
  The loop over \<open>scannedDirectory.photos\<close> (lines 183-213): the indexed photos not matched
  yet, \<open>photosToSave\<close>, and the allocator of object addresses.
\<close>

fun indexPhotos ::
  "dir_link \<Rightarrow> Photo list \<Rightarrow> Photo list \<Rightarrow> Photo list \<Rightarrow> ref \<Rightarrow>
   Photo list \<times> Photo list \<times> ref" where
  "indexPhotos parentDir [] indexed photosToSave r = (indexed, photosToSave, r)"
| "indexPhotos parentDir (sp # rest) indexed photosToSave r =
     (case takeFirst (\<lambda>p. photo_name p = photo_name sp) indexed of
        (found, indexed') \<Rightarrow>
          (let photo = (case found of
                          Some p \<Rightarrow> p
                        | None \<Rightarrow> (clone r (sp\<lparr>photo_directory := NoDirectory\<rparr>))
                                    \<lparr>photo_directory := parentDir\<rparr>);
               r' = (case found of Some p \<Rightarrow> r | None \<Rightarrow> r + 4)
           in if metadata_differs (photo_metadata photo) (photo_metadata sp)
              then indexPhotos parentDir rest indexed'
                     (photosToSave @ [take_metadata photo (photo_metadata sp)]) r'
              else indexPhotos parentDir rest indexed' photosToSave r'))"

record IndexRun =
  resolved :: "error + Directory"
  calls :: "db_call list"
  failure :: "error option"

text \<open>
  \<open>indexDirectory\<close> (lines 105-223). Its inputs: the result of
  \<open>DiskManager.scanDirectory\<close>, the three query results (the directory itself, its indexed
  child directories, its indexed photos), the next id of the store and the next free
  object address. The promise is resolved with the scanned directory before anything is
  written; an exception afterwards reaches \<open>reject\<close>, which no longer changes the promise.
\<close>

definition indexDirectory ::
  "error + Directory \<Rightarrow> Directory option \<Rightarrow> Directory list \<Rightarrow> Photo list \<Rightarrow> nat \<Rightarrow> ref \<Rightarrow>
   IndexRun" where
  "indexDirectory scan parentQuery indexedDirectories indexedPhotos nid r =
     (case scan of
        Inl e \<Rightarrow> \<lparr>resolved = Inl e, calls = [], failure = Some e\<rparr>
      | Inr scanned0 \<Rightarrow>
          (let scannedDirectory = Directory
                 ((fields_of scanned0)\<lparr>photos :=
                    map (\<lambda>p. p\<lparr>readyThumbnails := []\<rparr>) (photos (fields_of scanned0))\<rparr>)
                 (directories scanned0);
               sf = fields_of scannedDirectory;
               saved = (case parentQuery of
                   Some pd \<Rightarrow> Directory ((fields_of pd)\<lparr>scanned := True,
                                 lastModified := lastModified sf,
                                 lastScanned := lastScanned sf\<rparr>) (directories pd)
                 | None \<Rightarrow> Directory (sf\<lparr>scanned := True\<rparr>) (directories scannedDirectory));
               parentDir = DirectoryOf (dir_name (fields_of saved)) (dir_path (fields_of saved))
                     (case dir_id (fields_of saved) of None \<Rightarrow> Some nid | Some i \<Rightarrow> Some i);
               nid1 = (case dir_id (fields_of saved) of None \<Rightarrow> Suc nid | Some i \<Rightarrow> nid)
           in case indexChildDirectories parentDir (directories scannedDirectory)
                     indexedDirectories [SaveDirectory saved] nid1 of
                (Some e, remaining, made, nid2) \<Rightarrow>
                   \<lparr>resolved = Inr scannedDirectory, calls = made, failure = Some e\<rparr>
              | (None, remaining, made, nid2) \<Rightarrow>
                  (case indexPhotos parentDir (photos sf) indexedPhotos [] r of
                     (remainingPhotos, photosToSave, r') \<Rightarrow>
                       \<lparr>resolved = Inr scannedDirectory,
                        calls = made @ [RemoveDirectories remaining, SavePhotos photosToSave,
                                       RemovePhotos remainingPhotos],
                        failure = None\<rparr>)))"

section \<open>GalleryManager.listDirectory\<close>

datatype listing = NoData | Tree Directory

text \<open>
  What \<open>listDirectory\<close> reads: the stat of the directory (ctime and mtime, or none when
  \<open>statSync\<close> throws), the persisted directory with its child directories and photos
  joined, the preview query for a child directory, the clock at its two readings, the
  configuration, and the inputs of \<open>indexDirectory\<close>.
\<close>

record GalleryEnv =
  stat_times :: "(int \<times> int) option"
  persisted :: "Directory option"
  preview :: "Directory \<Rightarrow> Photo list"
  now1 :: int
  now2 :: int
  indexing :: IndexingConfig
  scan_result :: "error + Directory"
  parent_query :: "Directory option"
  children_query :: "Directory list"
  photos_query :: "Photo list"
  next_id :: nat
  next_ref :: ref

record ListRun =
  response :: "error + listing"
  db_calls :: "db_call list"

definition runIndex :: "GalleryEnv \<Rightarrow> IndexRun" where
  "runIndex env = indexDirectory (scan_result env) (parent_query env) (children_query env)
                    (photos_query env) (next_id env) (next_ref env)"

definition returnIndex :: "GalleryEnv \<Rightarrow> ListRun" where
  "returnIndex env =
     \<lparr>response = (case resolved (runIndex env) of Inl e \<Rightarrow> Inl e | Inr d \<Rightarrow> Inr (Tree d)),
      db_calls = calls (runIndex env)\<rparr>"

text \<open>Lines 53-81: the persisted directory as it is handed to the caller.\<close>

definition openPhotos :: "dir_link \<Rightarrow> Photo list \<Rightarrow> Photo list" where
  "openPhotos owner ps =
     map (\<lambda>p. p\<lparr>photo_directory := owner, readyThumbnails := [], readyIcon := False\<rparr>) ps"

definition persistedView :: "GalleryEnv \<Rightarrow> Directory \<Rightarrow> Directory" where
  "persistedView env dir =
     Directory ((fields_of dir)\<lparr>photos := openPhotos (link_of dir) (photos (fields_of dir))\<rparr>)
       (map (\<lambda>sub. Directory ((fields_of sub)\<lparr>photos := openPhotos (link_of sub) (preview env sub),
                                           isPartial := True\<rparr>) (directories sub))
            (directories dir))"

text \<open>Lines 53-96: what a scanned persisted directory gives when the short cut is not taken.\<close>

definition serveOrRescan :: "GalleryEnv \<Rightarrow> int \<Rightarrow> Directory \<Rightarrow> ListRun" where
  "serveOrRescan env diskModified dir =
     (if lastModified (fields_of dir) \<noteq> diskModified then returnIndex env
      else if (now2 env - lastScanned (fields_of dir) > cachedFolderTimeout (indexing env) \<and>
               level (reIndexingSensitivity (indexing env)) \<ge> level medium) \<or>
              level (reIndexingSensitivity (indexing env)) \<ge> level high
      then \<lparr>response = Inr (Tree (persistedView env dir)), db_calls = calls (runIndex env)\<rparr>
      else \<lparr>response = Inr (Tree (persistedView env dir)), db_calls = []\<rparr>)"

text \<open>Lines 41-51: the short cut. It answers \<open>null\<close>, here \<open>NoData\<close>.\<close>

definition cachedCopyValid :: "GalleryEnv \<Rightarrow> int \<Rightarrow> Directory \<Rightarrow> int option \<Rightarrow> int option \<Rightarrow> bool" where
  "cachedCopyValid env diskModified dir knownLastModified knownLastScanned =
     (truthy knownLastModified \<and> truthy knownLastScanned \<and>
      js_eq_opt diskModified knownLastModified \<and>
      js_eq_opt (lastScanned (fields_of dir)) knownLastScanned \<and>
      (reIndexingSensitivity (indexing env) = low \<or>
       (case knownLastScanned of
          None \<Rightarrow> False
        | Some s \<Rightarrow> now1 env - s \<le> cachedFolderTimeout (indexing env) \<and>
                    reIndexingSensitivity (indexing env) = medium)))"

definition listDirectory :: "GalleryEnv \<Rightarrow> int option \<Rightarrow> int option \<Rightarrow> ListRun" where
  "listDirectory env knownLastModified knownLastScanned =
     (case stat_times env of
        None \<Rightarrow> \<lparr>response = Inl StatError, db_calls = []\<rparr>
      | Some (ctime, mtime) \<Rightarrow>
          (let diskModified = max ctime mtime in
           case persisted env of
             None \<Rightarrow> returnIndex env
           | Some dir \<Rightarrow>
               if scanned (fields_of dir) then
                 (if cachedCopyValid env diskModified dir knownLastModified knownLastScanned
                  then \<lparr>response = Inr NoData, db_calls = []\<rparr>
                  else serveOrRescan env diskModified dir)
               else returnIndex env))"

section \<open>Numbers, strings and exceptions in MetadataLoader.ts\<close>

text \<open>
  A number that may be \<open>NaN\<close> is an option, \<open>None\<close> being \<open>NaN\<close>; a tag or property that
  may be \<open>undefined\<close> is an option as well. Fractions (the ratios of a face region, GPS
  coordinates) are exact reals: the rounding error of doubles is not modelled.
\<close>

type_synonym number = "real option"

text \<open>The operator \<open>||\<close> on two numbers, and on two strings that may be \<open>undefined\<close>.\<close>

fun js_or :: "int option \<Rightarrow> int option \<Rightarrow> int option" where
  "js_or None b = b"
| "js_or (Some n) b = (if n = 0 then b else Some n)"

fun truthy_string :: "string option \<Rightarrow> bool" where
  "truthy_string None = False"
| "truthy_string (Some s) = (s \<noteq> [])"

definition or_string :: "string option \<Rightarrow> string option \<Rightarrow> string option" where
  "or_string a b = (if truthy_string a then a else b)"

text \<open>
  The outcome of a block that may throw: the metadata as the block left it, and whether it
  ended by an exception. \<open>caught\<close> is a \<open>catch\<close> that only logs.
\<close>

datatype 's run = Normal 's | Thrown 's

fun caught :: "'s run \<Rightarrow> 's" where
  "caught (Normal s) = s"
| "caught (Thrown s) = s"

fun replaceFirst :: "char \<Rightarrow> char \<Rightarrow> string \<Rightarrow> string" where
  "replaceFirst a b [] = []"
| "replaceFirst a b (c # cs) = (if c = a then b # cs else c # replaceFirst a b cs)"

definition replaceAll :: "char \<Rightarrow> char \<Rightarrow> string \<Rightarrow> string" where
  "replaceAll a b s = map (\<lambda>c. if c = a then b else c) s"

fun join :: "string \<Rightarrow> string list \<Rightarrow> string" where
  "join sep [] = []"
| "join sep [x] = x"
| "join sep (x # y # ys) = x @ sep @ join sep (y # ys)"

text \<open>\<open>slice(-2)\<close>: the last two characters.\<close>

definition slice2 :: "string \<Rightarrow> string" where
  "slice2 s = drop (length s - 2) s"

definition isSpace :: "char \<Rightarrow> bool" where
  "isSpace c = (c = CHR '' '' \<or> c = CHR 0x09 \<or> c = CHR 0x0A \<or> c = CHR 0x0B \<or>
                c = CHR 0x0C \<or> c = CHR 0x0D)"

definition trim :: "string \<Rightarrow> string" where
  "trim s = rev (dropWhile isSpace (rev (dropWhile isSpace s)))"

text \<open>\<open>.replace(/\0/g, '').trim()\<close>, applied to the strings of the IPTC section.\<close>

definition cleanString :: "string \<Rightarrow> string" where
  "cleanString s = trim (filter (\<lambda>c. c \<noteq> CHR 0x00) s)"

definition Math_round :: "real \<Rightarrow> real" where
  "Math_round x = of_int \<lfloor>x + 1 / 2\<rfloor>"

text \<open>
  \<open>parseFloat(x.toFixed(n))\<close>: \<open>x\<close> rounded to \<open>n\<close> decimals, halves away from zero. The
  model rounds the exact decimal; the code rounds the double nearest to it, which may lie
  below the half (2.675 gives 2.68 here and 2.67 in the code).
\<close>

definition toFixed :: "nat \<Rightarrow> real \<Rightarrow> real" where
  "toFixed n x = sgn x * of_int \<lfloor>\<bar>x\<bar> * 10 ^ n + 1 / 2\<rfloor> / 10 ^ n"

section \<open>The records of MetadataLoader.ts\<close>

record MediaMetadata =
  size' :: MediaDimension
  creationDate :: "int option"
  creationDateOffset :: "string option"
  fileSize :: int
  keywords' :: "string list option"
  rating :: "int option"

record FaceBox =
  box_width :: number
  box_height :: number
  box_left :: number
  box_top :: number

record FaceRegion =
  face_name :: string
  face_box :: FaceBox

record PhotoMetadata = MediaMetadata +
  cameraData :: "CameraMetadata option"
  positionData :: "PositionMetaData option"
  faces :: "FaceRegion list option"
  title :: "string option"
  caption :: "string option"

record VideoMetadata = MediaMetadata +
  bitRate :: "int option"
  duration :: int
  fps :: "int option"

text \<open>
  What the parsers return (they are external: exifr, ts-node-iptc, ffprobe). \<open>dc.subject\<close>
  is one string or an array of strings.
\<close>

datatype subject_value = One string | Many "string list"

record DcSection =
  subject :: "subject_value option"

record XmpSection =
  Rating :: "int option"

record SideCar =
  sidecar_dc :: "DcSection option"
  sidecar_xmp :: "XmpSection option"

text \<open>
  A sidecar candidate: the file does not exist; \<open>exifr.sidecar\<close> rejects; or it answers,
  with \<open>undefined\<close> or with the sections it parsed.
\<close>

datatype candidate = Missing | Unparsable | Parsed "SideCar option"

text \<open>
  The record of the IPTC parser. \<open>keywords\<close> is an array of strings, or one value that is
  not an array; \<open>date_time\<close> is a Date, whose \<open>getTime\<close> may be \<open>NaN\<close>.
\<close>

record IptcData =
  country_or_primary_location_name :: "string option"
  province_or_state :: "string option"
  iptc_city :: "string option"
  object_name :: "string option"
  iptc_caption :: "string option"
  iptc_keywords :: "subject_value option"
  date_time :: "int option option"

record Ifd0Section =
  ImageWidth :: "int option"
  ImageHeight :: "int option"
  Orientation :: "int option"
  Make :: "string option"
  Model :: "string option"
  ModifyDate :: "string option"

record ExifSection =
  DateTimeOriginal :: "string option"
  OffsetTimeOriginal :: "string option"
  OffsetTimeDigitized :: "string option"
  OffsetTime :: "string option"
  CreateDate :: "string option"
  LensModel :: "string option"
  ISOTag :: "int option"
  FocalLength :: "real option"
  ExposureTime :: "real option"
  FNumber :: "real option"
  ExifImageWidth :: "int option"
  ExifImageHeight :: "int option"

text \<open>\<open>GPSTimeStamp\<close> is an array of numbers; its entries are kept as they print.\<close>

record GpsSection =
  GPSDateStamp :: "string option"
  GPSTimeStamp :: "string list option"
  gps_longitude :: "real option"
  gps_latitude :: "real option"

text \<open>The four attributes of a region's area, each after \<open>parseFloat\<close>.\<close>

record Area =
  area_w :: number
  area_h :: number
  area_x :: number
  area_y :: number

record AreaElement =
  attributes :: "Area option"

record Description =
  mwg_rs_Area :: "AreaElement option"
  mwg_rs_Name :: "string option"
  mwg_rs_Type :: "string option"

record RegionRoot =
  rdf_Description :: "Description option"
  region_Name :: "string option"
  region_Type :: "string option"
  region_Area :: "Area option"

text \<open>
  \<open>exif["mwg-rs"].Regions.RegionList\<close> after line 460 made it an array; on a single entry
  that is \<open>undefined\<close> every test of the loop fails, as on a root with no property.
\<close>

record Regions =
  RegionList :: "RegionRoot list"

record MwgRs =
  mwg_Regions :: "Regions option"

record ExifData =
  dc :: "DcSection option"
  ifd0 :: "Ifd0Section option"
  exif :: "ExifSection option"
  gps :: "GpsSection option"
  xmp :: "XmpSection option"
  mwg_rs :: "MwgRs option"

record StreamTags =
  creation_time :: "string option"

text \<open>
  A stream of ffprobe, its strings parsed: \<open>rotation\<close>, \<open>bit_rate\<close> and \<open>avg_frame_rate\<close>
  after \<open>parseInt\<close>, \<open>duration\<close> after \<open>parseFloat\<close>.
\<close>

record Stream =
  stream_width :: "int option"
  stream_height :: int
  rotation :: "int option"
  stream_duration :: "real option"
  bit_rate :: "int option"
  avg_frame_rate :: "int option"
  stream_tags :: "StreamTags option"

record Format =
  format_duration :: "real option"
  format_bit_rate :: "int option"
  format_tags :: "StreamTags option"

record FfprobeData =
  streams :: "Stream list"
  format :: "Format option"

text \<open>
  Everything a call of \<open>loadPhotoMetadata\<close> or \<open>loadVideoMetadata\<close> reads: whether the
  header of the file could be read; the stat of the file (size and mtime) unless
  \<open>statSync\<close> throws; what the three parsers and \<open>imageSize\<close> return, \<open>None\<close> when they
  throw (for exifr also when it answers \<open>undefined\<close>); the two switches of
  \<open>Config.Faces\<close>; the four sidecar candidates in the order probed; and, as parameters,
  \<open>Date.parse\<close>, the printing of a number, and the three range tests of \<open>Utils\<close>
  (\<open>Utils\<close> is not among the sources).
\<close>

record LoaderEnv =
  header_read :: bool
  file_stat :: "(int \<times> int) option"
  iptc :: "IptcData option"
  exifr_parse :: "ExifData option"
  imageSize :: "(int \<times> int) option"
  faces_enabled :: bool
  keywordsToPersons :: bool
  sidecars :: "candidate list"
  ffprobe :: "FfprobeData option"
  Date_parse :: "string \<Rightarrow> int option"
  number_to_string :: "real \<Rightarrow> string"
  isInt32 :: "int \<Rightarrow> bool"
  isUInt32 :: "int \<Rightarrow> bool"
  isFloat32 :: "real \<Rightarrow> bool"

text \<open>A range test of \<open>Utils\<close> on a value that may be \<open>undefined\<close> or \<open>NaN\<close>: it fails there.\<close>

definition passes :: "('a \<Rightarrow> bool) \<Rightarrow> 'a option \<Rightarrow> bool" where
  "passes test v = (case v of None \<Rightarrow> False | Some x \<Rightarrow> test x)"

section \<open>The sidecar merge (lines 128-161 and 571-605)\<close>

text \<open>The loop \<open>if (metadata.keywords.indexOf(kw) === -1) metadata.keywords.push(kw)\<close>.\<close>

fun addKeywords :: "string list \<Rightarrow> string list \<Rightarrow> string list" where
  "addKeywords kws [] = kws"
| "addKeywords kws (kw # rest) =
     addKeywords (if kw \<in> set kws then kws else kws @ [kw]) rest"

text \<open>\<open>for (const kw of subject)\<close>: the entries of an array, the characters of a string.\<close>

fun iterate :: "subject_value \<Rightarrow> string list" where
  "iterate (Many l) = l"
| "iterate (One s) = map (\<lambda>c. [c]) s"

definition keywordsOrEmpty :: "'a MediaMetadata_scheme \<Rightarrow> string list" where
  "keywordsOrEmpty m = (case keywords' m of None \<Rightarrow> [] | Some k \<Rightarrow> k)"

text \<open>
  Lines 586-598, for one sidecar that parsed: its subjects join the keywords, its rating
  replaces the rating. A sidecar without a \<open>dc\<close> section throws at \<open>dc.subject\<close>, one
  without an \<open>xmp\<close> section at \<open>xmp.Rating\<close>, after the keywords were merged.
\<close>

definition readSidecar ::
  "SideCar \<Rightarrow> 'a MediaMetadata_scheme \<Rightarrow> 'a MediaMetadata_scheme run" where
  "readSidecar sidecarData m =
     (case sidecar_dc sidecarData of
        None \<Rightarrow> Thrown m
      | Some d \<Rightarrow>
          (let m1 = (case subject d of
                       None \<Rightarrow> m
                     | Some subj \<Rightarrow>
                         m\<lparr>keywords' := Some (addKeywords (keywordsOrEmpty m) (iterate subj))\<rparr>)
           in case sidecar_xmp sidecarData of
                None \<Rightarrow> Thrown m1
              | Some x \<Rightarrow>
                  (case Rating x of
                     None \<Rightarrow> Normal m1
                   | Some r \<Rightarrow> Normal (m1\<lparr>rating := Some r\<rparr>))))"

text \<open>
  The loop over the candidates. One \<open>try\<close> holds the whole loop: a candidate that throws
  ends it, and the candidates after it are not read.
\<close>

fun mergeSidecars ::
  "candidate list \<Rightarrow> 'a MediaMetadata_scheme \<Rightarrow> 'a MediaMetadata_scheme run" where
  "mergeSidecars [] m = Normal m"
| "mergeSidecars (Missing # rest) m = mergeSidecars rest m"
| "mergeSidecars (Unparsable # rest) m = Thrown m"
| "mergeSidecars (Parsed None # rest) m = mergeSidecars rest m"
| "mergeSidecars (Parsed (Some sidecarData) # rest) m =
     (case readSidecar sidecarData m of
        Thrown t \<Rightarrow> Thrown t
      | Normal m1 \<Rightarrow> mergeSidecars rest m1)"

section \<open>MetadataLoader.loadVideoMetadata\<close>

definition statSection ::
  "(int \<times> int) option \<Rightarrow> 'a MediaMetadata_scheme \<Rightarrow> 'a MediaMetadata_scheme" where
  "statSection st m =
     (case st of
        None \<Rightarrow> m
      | Some (sz, mtime) \<Rightarrow> m\<lparr>fileSize := sz, creationDate := Some mtime\<rparr>)"

definition parseTag :: "LoaderEnv \<Rightarrow> string option \<Rightarrow> int option" where
  "parseTag env t = (case t of None \<Rightarrow> None | Some s \<Rightarrow> Date_parse env s)"

text \<open>Line 63: \<open>(Math.abs(rotation) / 90) % 2 === 1\<close>.\<close>

definition sideways :: "int \<Rightarrow> bool" where
  "sideways rot = (\<bar>rot\<bar> mod 90 = 0 \<and> (\<bar>rot\<bar> div 90) mod 2 = 1)"

definition msOf :: "real option \<Rightarrow> int option" where
  "msOf d = map_option (\<lambda>x. \<lfloor>x * 1000\<rfloor>) d"

definition nonzero :: "int option \<Rightarrow> int option" where
  "nonzero n = (case n of None \<Rightarrow> None | Some k \<Rightarrow> if k = 0 then None else Some k)"

text \<open>
  Lines 57-88, for the first stream whose \<open>width\<close> is truthy. Reading
  \<open>stream.tags.creation_time\<close> throws when the stream has no tags.
\<close>

definition readStream :: "LoaderEnv \<Rightarrow> Stream \<Rightarrow> int \<Rightarrow> VideoMetadata \<Rightarrow> VideoMetadata run" where
  "readStream env stream w m =
     (let m1 = m\<lparr>size' := \<lparr>width = w, height = stream_height stream\<rparr>\<rparr>;
          m2 = (if passes (isInt32 env) (rotation stream) \<and>
                   (case rotation stream of None \<Rightarrow> False | Some rot \<Rightarrow> sideways rot)
                then m1\<lparr>size' := \<lparr>width = stream_height stream, height = w\<rparr>\<rparr> else m1);
          m3 = (if passes (isInt32 env) (msOf (stream_duration stream))
                then (case msOf (stream_duration stream) of
                        None \<Rightarrow> m2 | Some d \<Rightarrow> m2\<lparr>duration := d\<rparr>)
                else m2);
          m4 = (if passes (isInt32 env) (bit_rate stream)
                then m3\<lparr>bitRate := nonzero (bit_rate stream)\<rparr> else m3);
          m5 = (if passes (isInt32 env) (avg_frame_rate stream)
                then m4\<lparr>fps := nonzero (avg_frame_rate stream)\<rparr> else m4)
      in case stream_tags stream of
           None \<Rightarrow> Thrown m5
         | Some tags \<Rightarrow>
             Normal (m5\<lparr>creationDate :=
                        js_or (parseTag env (creation_time tags)) (creationDate m5)\<rparr>))"

fun readStreams :: "LoaderEnv \<Rightarrow> Stream list \<Rightarrow> VideoMetadata \<Rightarrow> VideoMetadata run" where
  "readStreams env [] m = Normal m"
| "readStreams env (stream # rest) m =
     (case stream_width stream of
        None \<Rightarrow> readStreams env rest m
      | Some w \<Rightarrow> if w = 0 then readStreams env rest m else readStream env stream w m)"

text \<open>Lines 96-119: the format section. \<open>data.format\<close> missing throws.\<close>

definition readFormat :: "LoaderEnv \<Rightarrow> Format option \<Rightarrow> VideoMetadata \<Rightarrow> VideoMetadata run" where
  "readFormat env fmt m =
     (case fmt of
        None \<Rightarrow> Thrown m
      | Some f \<Rightarrow>
          (let m1 = (if duration m = 0 \<and> format_duration f \<noteq> None \<and>
                        passes (isInt32 env) (msOf (format_duration f))
                     then (case msOf (format_duration f) of
                             None \<Rightarrow> m | Some d \<Rightarrow> m\<lparr>duration := d\<rparr>)
                     else m);
               m2 = (if format_bit_rate f \<noteq> None \<and> passes (isInt32 env) (format_bit_rate f)
                     then m1\<lparr>bitRate := format_bit_rate f\<rparr> else m1);
               m3 = (case format_tags f of
                       None \<Rightarrow> m2
                     | Some tags \<Rightarrow>
                         (case creation_time tags of
                            None \<Rightarrow> m2
                          | Some s \<Rightarrow>
                              m2\<lparr>creationDate := js_or (Date_parse env s) (creationDate m2)\<rparr>))
           in Normal m3))"

definition initialVideoMetadata :: VideoMetadata where
  "initialVideoMetadata =
     \<lparr>size' = \<lparr>width = 1, height = 1\<rparr>, creationDate = Some 0, creationDateOffset = None,
      fileSize = 0, keywords' = None, rating = None, bitRate = Some 0, duration = 0,
      fps = Some 0\<rparr>"

text \<open>
  \<open>loadVideoMetadata\<close> (lines 26-168). When ffprobe fails the metadata is returned as the
  stat left it: the sidecars are read only after a successful probe.
\<close>

definition loadVideoMetadata :: "LoaderEnv \<Rightarrow> VideoMetadata" where
  "loadVideoMetadata env =
     (let m0 = statSection (file_stat env) initialVideoMetadata in
      case ffprobe env of
        None \<Rightarrow> m0
      | Some data \<Rightarrow>
          (let m1 = caught (case readStreams env (streams data) m0 of
                              Thrown m \<Rightarrow> Thrown m
                            | Normal m \<Rightarrow> readFormat env (format data) m);
               m2 = m1\<lparr>creationDate := js_or (creationDate m1) (Some 0)\<rparr>
           in caught (mergeSidecars (sidecars env) m2)))"

section \<open>MetadataLoader.loadPhotoMetadata\<close>

text \<open>Lines 170-174: the record returned when the photo cannot be read.\<close>

definition EMPTY_METADATA :: PhotoMetadata where
  "EMPTY_METADATA =
     \<lparr>size' = \<lparr>width = 0, height = 0\<rparr>, creationDate = Some 0, creationDateOffset = None,
      fileSize = 0, keywords' = None, rating = None, cameraData = None,
      positionData = None, faces = None, title = None, caption = None\<rparr>"

text \<open>Lines 179-183: the record the function fills in.\<close>

definition initialPhotoMetadata :: PhotoMetadata where
  "initialPhotoMetadata =
     \<lparr>size' = \<lparr>width = 0, height = 0\<rparr>, creationDate = Some 0, creationDateOffset = None,
      fileSize = 0, keywords' = None, rating = None, cameraData = None,
      positionData = None, faces = None, title = None, caption = None\<rparr>"

text \<open>\<open>metadata.positionData || {}\<close> and \<open>metadata.cameraData || {}\<close>.\<close>

definition positionOrEmpty :: "PhotoMetadata \<Rightarrow> PositionMetaData" where
  "positionOrEmpty m =
     (case positionData m of
        None \<Rightarrow> \<lparr>country = None, state = None, city = None, GPSData = None\<rparr>
      | Some p \<Rightarrow> p)"

definition cameraOrEmpty :: "PhotoMetadata \<Rightarrow> CameraMetadata" where
  "cameraOrEmpty m =
     (case cameraData m of
        None \<Rightarrow> \<lparr>make' = None, model = None, lens = None, ISO = None, focalLength = None,
                 exposure = None, fStop = None\<rparr>
      | Some c \<Rightarrow> c)"

text \<open>\<open>if (tag) { ... }\<close> on a string tag: the update is made when the tag is a nonempty string.\<close>

definition whenString :: "string option \<Rightarrow> (string \<Rightarrow> 'a \<Rightarrow> 'a) \<Rightarrow> 'a \<Rightarrow> 'a" where
  "whenString tag f m = (case tag of None \<Rightarrow> m | Some s \<Rightarrow> if s = [] then m else f s m)"

text \<open>Lines 246-282. The keywords of the IPTC section are taken as they are.\<close>

definition iptcSection :: "IptcData option \<Rightarrow> PhotoMetadata \<Rightarrow> PhotoMetadata" where
  "iptcSection parsed m =
     (case parsed of
        None \<Rightarrow> m
      | Some iptcData \<Rightarrow>
          (let m1 = whenString (country_or_primary_location_name iptcData)
                      (\<lambda>s m. m\<lparr>positionData :=
                                 Some ((positionOrEmpty m)\<lparr>country := Some (cleanString s)\<rparr>)\<rparr>) m;
               m2 = whenString (province_or_state iptcData)
                      (\<lambda>s m. m\<lparr>positionData :=
                                 Some ((positionOrEmpty m)\<lparr>state := Some (cleanString s)\<rparr>)\<rparr>) m1;
               m3 = whenString (iptc_city iptcData)
                      (\<lambda>s m. m\<lparr>positionData :=
                                 Some ((positionOrEmpty m)\<lparr>city := Some (cleanString s)\<rparr>)\<rparr>) m2;
               m4 = whenString (object_name iptcData)
                      (\<lambda>s m. m\<lparr>title := Some (cleanString s)\<rparr>) m3;
               m5 = whenString (iptc_caption iptcData)
                      (\<lambda>s m. m\<lparr>caption := Some (cleanString s)\<rparr>) m4;
               m6 = (case iptc_keywords iptcData of
                       Some (Many l) \<Rightarrow> m5\<lparr>keywords' := Some l\<rparr>
                     | Some (One s) \<Rightarrow> m5
                     | None \<Rightarrow> m5)
           in case date_time iptcData of
                None \<Rightarrow> m6
              | Some t \<Rightarrow> m6\<lparr>creationDate := t\<rparr>))"

text \<open>Lines 290-302: the subjects of the dc section join the keywords, each once.\<close>

definition dcSection :: "ExifData \<Rightarrow> PhotoMetadata \<Rightarrow> PhotoMetadata" where
  "dcSection e m =
     (case dc e of
        None \<Rightarrow> m
      | Some d \<Rightarrow>
          (case subject d of
             None \<Rightarrow> m
           | Some (One s) \<Rightarrow>
               if s = [] then m
               else m\<lparr>keywords' := Some (addKeywords (keywordsOrEmpty m) [s])\<rparr>
           | Some (Many l) \<Rightarrow>
               if l = [] then m
               else m\<lparr>keywords' := Some (addKeywords (keywordsOrEmpty m) l)\<rparr>))"

text \<open>\<open>if (tag && metadata.size.width <= 0) metadata.size.width = tag\<close>, and for the height.\<close>

definition setWidth :: "int option \<Rightarrow> PhotoMetadata \<Rightarrow> PhotoMetadata" where
  "setWidth tag m =
     (case tag of
        None \<Rightarrow> m
      | Some w \<Rightarrow> if w \<noteq> 0 \<and> width (size' m) \<le> 0
                  then m\<lparr>size' := (size' m)\<lparr>width := w\<rparr>\<rparr> else m)"

definition setHeight :: "int option \<Rightarrow> PhotoMetadata \<Rightarrow> PhotoMetadata" where
  "setHeight tag m =
     (case tag of
        None \<Rightarrow> m
      | Some h \<Rightarrow> if h \<noteq> 0 \<and> height (size' m) \<le> 0
                  then m\<lparr>size' := (size' m)\<lparr>height := h\<rparr>\<rparr> else m)"

text \<open>Lines 285 and 312-317: the orientation is 1 unless the tag is truthy.\<close>

definition orientationOf :: "ExifData \<Rightarrow> int" where
  "orientationOf e =
     (case ifd0 e of
        None \<Rightarrow> 1
      | Some i \<Rightarrow> (case Orientation i of None \<Rightarrow> 1 | Some n \<Rightarrow> if n = 0 then 1 else n))"

text \<open>Lines 305-327, the orientation apart.\<close>

definition ifd0Section :: "ExifData \<Rightarrow> PhotoMetadata \<Rightarrow> PhotoMetadata" where
  "ifd0Section e m =
     (case ifd0 e of
        None \<Rightarrow> m
      | Some i \<Rightarrow>
          (let m1 = setHeight (ImageHeight i) (setWidth (ImageWidth i) m);
               m2 = whenString (Make i)
                      (\<lambda>s m. m\<lparr>cameraData := Some ((cameraOrEmpty m)\<lparr>make' := Some s\<rparr>)\<rparr>) m1
           in whenString (Model i)
                (\<lambda>s m. m\<lparr>cameraData := Some ((cameraOrEmpty m)\<lparr>model := Some s\<rparr>)\<rparr>) m2))"

text \<open>
  \<open>timestampToMS\<close> (lines 199-202): the first two colons of the timestamp become dashes,
  the offset (or \<open>+00:00\<close>) is appended, and \<open>Date.parse\<close> reads the result. A timestamp
  that is \<open>undefined\<close> has no \<open>replace\<close>: a TypeError.
\<close>

definition timestampToMS ::
  "LoaderEnv \<Rightarrow> string option \<Rightarrow> string option \<Rightarrow> error + int option" where
  "timestampToMS env timestamp offset =
     (case timestamp of
        None \<Rightarrow> Inl TypeError
      | Some ts \<Rightarrow>
          Inr (Date_parse env
                 (replaceFirst CHR '':'' CHR ''-'' (replaceFirst CHR '':'' CHR ''-'' ts) @
                  (case offset of
                     None \<Rightarrow> ''+00:00''
                   | Some off \<Rightarrow> if off = [] then ''+00:00'' else off))))"

text \<open>
  \<open>getTimeOffsetByGPSStamp\<close> (lines 204-223). \<open>Date.parse\<close> of a timestamp that is
  \<open>undefined\<close> is \<open>NaN\<close>, and no comparison with \<open>NaN\<close> holds.
\<close>

definition getTimeOffsetByGPSStamp ::
  "LoaderEnv \<Rightarrow> string option \<Rightarrow> GpsSection option \<Rightarrow> string option" where
  "getTimeOffsetByGPSStamp env timestamp g =
     (case g of
        None \<Rightarrow> None
      | Some gpsTags \<Rightarrow>
          (case (GPSDateStamp gpsTags, GPSTimeStamp gpsTags) of
             (Some stamp, Some time) \<Rightarrow>
               if stamp = [] then None
               else
                 (let gpsTimestamp =
                        replaceAll CHR '':'' CHR ''-'' stamp @ join '':'' time @ ''+00:00''
                  in case (parseTag env timestamp, Date_parse env gpsTimestamp) of
                       (Some a, Some b) \<Rightarrow>
                         (let offsetMinutes = real_of_int (a - b) / 1000 / 60 in
                          if - 720 \<le> offsetMinutes \<and> offsetMinutes \<le> 840
                          then Some
                            ((if offsetMinutes < 0 then ''-'' else ''+'') @
                             slice2 (''0'' @ number_to_string env
                                       (of_int \<lfloor>\<bar>offsetMinutes\<bar> / 60\<rfloor>)) @ '':'' @
                             slice2 (''0'' @ number_to_string env
                                       (\<bar>offsetMinutes\<bar> -
                                        60 * of_int \<lfloor>\<bar>offsetMinutes\<bar> / 60\<rfloor>)))
                          else None)
                     | (Some a, None) \<Rightarrow> None
                     | (None, b) \<Rightarrow> None)
           | (Some stamp, None) \<Rightarrow> None
           | (None, time) \<Rightarrow> None))"

definition setCreation ::
  "error + int option \<Rightarrow> string option \<Rightarrow> PhotoMetadata \<Rightarrow> PhotoMetadata run" where
  "setCreation ms offset m =
     (case ms of
        Inl e \<Rightarrow> Thrown m
      | Inr t \<Rightarrow> Normal (m\<lparr>creationDate := t, creationDateOffset := offset\<rparr>))"

text \<open>
  Lines 331-361: the creation date from DateTimeOriginal, else CreateDate, else the
  ModifyDate of ifd0. \<open>x\<close> is \<open>exif.exif\<close>. In the second branch of CreateDate the source
  passes \<open>exif.exif.DateTimeOriginal\<close> to both functions (lines 347-348), and so does the
  model.
\<close>

definition creationSection ::
  "LoaderEnv \<Rightarrow> ExifData \<Rightarrow> ExifSection \<Rightarrow> PhotoMetadata \<Rightarrow> PhotoMetadata run" where
  "creationSection env e x m =
     (if truthy_string (DateTimeOriginal x) then
        (if truthy_string (OffsetTimeOriginal x)
         then setCreation (timestampToMS env (DateTimeOriginal x) (OffsetTimeOriginal x))
                (OffsetTimeOriginal x) m
         else
           (let alt_offset =
                  or_string (OffsetTimeDigitized x)
                    (or_string (OffsetTime x)
                       (getTimeOffsetByGPSStamp env (DateTimeOriginal x) (gps e)))
            in setCreation (timestampToMS env (DateTimeOriginal x) alt_offset) alt_offset m))
      else if truthy_string (CreateDate x) then
        (if truthy_string (OffsetTimeDigitized x)
         then setCreation (timestampToMS env (CreateDate x) (OffsetTimeDigitized x))
                (OffsetTimeDigitized x) m
         else
           (let alt_offset =
                  or_string (OffsetTimeOriginal x)
                    (or_string (OffsetTime x)
                       (getTimeOffsetByGPSStamp env (DateTimeOriginal x) (gps e)))
            in setCreation (timestampToMS env (DateTimeOriginal x) alt_offset) alt_offset m))
      else
        (case (case ifd0 e of None \<Rightarrow> None | Some i \<Rightarrow> ModifyDate i) of
           None \<Rightarrow> Normal m
         | Some modifyDate \<Rightarrow>
             if modifyDate = [] then Normal m
             else if truthy_string (OffsetTime x)
             then setCreation (timestampToMS env (Some modifyDate) (OffsetTime x))
                    (OffsetTime x) m
             else
               (let alt_offset =
                      or_string (DateTimeOriginal x)
                        (or_string (OffsetTimeDigitized x)
                           (getTimeOffsetByGPSStamp env (Some modifyDate) (gps e)))
                in setCreation (timestampToMS env (Some modifyDate) alt_offset) alt_offset m)))"

text \<open>Lines 362-393: the camera data and the dimensions of the exif section.\<close>

definition cameraSection :: "LoaderEnv \<Rightarrow> ExifSection \<Rightarrow> PhotoMetadata \<Rightarrow> PhotoMetadata" where
  "cameraSection env x m =
     (let m1 = whenString (LensModel x)
                 (\<lambda>s m. m\<lparr>cameraData := Some ((cameraOrEmpty m)\<lparr>lens := Some s\<rparr>)\<rparr>) m;
          m2 = (if passes (isUInt32 env) (ISOTag x)
                then m1\<lparr>cameraData := Some ((cameraOrEmpty m1)\<lparr>ISO := ISOTag x\<rparr>)\<rparr> else m1);
          m3 = (if passes (isFloat32 env) (FocalLength x)
                then m2\<lparr>cameraData := Some ((cameraOrEmpty m2)\<lparr>focalLength := FocalLength x\<rparr>)\<rparr>
                else m2);
          m4 = (if passes (isFloat32 env) (ExposureTime x)
                then m3\<lparr>cameraData := Some ((cameraOrEmpty m3)
                            \<lparr>exposure := map_option (toFixed 6) (ExposureTime x)\<rparr>)\<rparr>
                else m3);
          m5 = (if passes (isFloat32 env) (FNumber x)
                then m4\<lparr>cameraData := Some ((cameraOrEmpty m4)
                            \<lparr>fStop := map_option (toFixed 2) (FNumber x)\<rparr>)\<rparr>
                else m4)
      in setHeight (ExifImageHeight x) (setWidth (ExifImageWidth x) m5))"

text \<open>
  Lines 397-419. A gps section in which neither coordinate passes the test leaves
  \<open>GPSData\<close> without keys, and then \<open>positionData\<close> is set to \<open>undefined\<close> as a whole.
\<close>

definition gpsSection :: "LoaderEnv \<Rightarrow> ExifData \<Rightarrow> PhotoMetadata \<Rightarrow> PhotoMetadata" where
  "gpsSection env e m =
     (case gps e of
        None \<Rightarrow> m
      | Some g \<Rightarrow>
          (let p = positionOrEmpty m;
               g0 = (case GPSData p of
                       None \<Rightarrow> \<lparr>latitude = None, longitude = None\<rparr>
                     | Some d \<Rightarrow> d);
               g1 = (if passes (isFloat32 env) (gps_longitude g)
                     then g0\<lparr>longitude := map_option (toFixed 6) (gps_longitude g)\<rparr> else g0);
               g2 = (if passes (isFloat32 env) (gps_latitude g)
                     then g1\<lparr>latitude := map_option (toFixed 6) (gps_latitude g)\<rparr> else g1)
           in if latitude g2 = None \<and> longitude g2 = None
              then m\<lparr>positionData := None\<rparr>
              else m\<lparr>positionData := Some (p\<lparr>GPSData := Some g2\<rparr>)\<rparr>))"

text \<open>Lines 424-433: the size from \<open>imageSize\<close> when a side is missing, at least 1 x 1.\<close>

definition fixSize :: "LoaderEnv \<Rightarrow> PhotoMetadata \<Rightarrow> PhotoMetadata" where
  "fixSize env m =
     (if width (size' m) \<le> 0 \<or> height (size' m) \<le> 0 then
        (case imageSize env of
           Some (w, h) \<Rightarrow> m\<lparr>size' := \<lparr>width = w, height = h\<rparr>\<rparr>
         | None \<Rightarrow> m\<lparr>size' := \<lparr>width = max (width (size' m)) 1,
                                 height = max (height (size' m)) 1\<rparr>\<rparr>)
      else m)"

text \<open>Lines 437-443.\<close>

definition swapSides :: "int \<Rightarrow> PhotoMetadata \<Rightarrow> PhotoMetadata" where
  "swapSides orientation m =
     (if 4 < orientation
      then m\<lparr>size' := \<lparr>width = height (size' m), height = width (size' m)\<rparr>\<rparr>
      else m)"

text \<open>Lines 449-454: a truthy rating of the xmp section, a negative one raised to 0.\<close>

definition xmpSection :: "ExifData \<Rightarrow> PhotoMetadata \<Rightarrow> PhotoMetadata" where
  "xmpSection e m =
     (case xmp e of
        None \<Rightarrow> m
      | Some x \<Rightarrow>
          (case Rating x of
             None \<Rightarrow> m
           | Some r \<Rightarrow> if r = 0 then m
                       else if r < 0 then m\<lparr>rating := Some 0\<rparr>
                       else m\<lparr>rating := Some r\<rparr>))"

text \<open>
  \<open>createFaceBox\<close> (lines 466-500), with the orientation and the size it reads from its
  surroundings as arguments. The box it returns is center-anchored, in pixels.
  The products are exact; the code multiplies doubles before \<open>Math.round\<close>, so a product
  that lies on a half exactly can round the other way there (0.285 * 100 gives 29 here
  and 28 in the code).
\<close>

definition swapX :: "int \<Rightarrow> real" where
  "swapX orientation =
     (if orientation = 2 \<or> orientation = 6 \<or> orientation = 3 \<or> orientation = 7
      then 1 else 0)"

definition swapY :: "int \<Rightarrow> real" where
  "swapY orientation =
     (if orientation = 3 \<or> orientation = 7 \<or> orientation = 4 \<or> orientation = 8
      then 1 else 0)"

definition createFaceBox ::
  "int \<Rightarrow> MediaDimension \<Rightarrow> number \<Rightarrow> number \<Rightarrow> number \<Rightarrow> number \<Rightarrow> FaceBox" where
  "createFaceBox orientation sz w h x y =
     (let x1 = (if 4 < orientation then y else x);
          y1 = (if 4 < orientation then x else y);
          w1 = (if 4 < orientation then h else w);
          h1 = (if 4 < orientation then w else h)
      in \<lparr>box_width = map_option (\<lambda>v. Math_round (v * of_int (width sz))) w1,
          box_height = map_option (\<lambda>v. Math_round (v * of_int (height sz))) h1,
          box_left =
            map_option (\<lambda>v. Math_round (\<bar>v - swapX orientation\<bar> * of_int (width sz))) x1,
          box_top =
            map_option (\<lambda>v. Math_round (\<bar>v - swapY orientation\<bar> * of_int (height sz))) y1\<rparr>)"

text \<open>Lines 542-543: \<open>Math.round(Math.max(0, box.left - box.width / 2))\<close>, and for the top.\<close>

definition cornerOf :: "number \<Rightarrow> number \<Rightarrow> number" where
  "cornerOf center extent =
     (case (center, extent) of
        (Some c, Some d) \<Rightarrow> Some (Math_round (max 0 (c - d / 2)))
      | (Some c, None) \<Rightarrow> None
      | (None, d) \<Rightarrow> None)"

definition centerToCorner :: "FaceBox \<Rightarrow> FaceBox" where
  "centerToCorner box =
     (let b1 = box\<lparr>box_left := cornerOf (box_left box) (box_width box)\<rparr>
      in b1\<lparr>box_top := cornerOf (box_top b1) (box_height b1)\<rparr>)"

text \<open>
  One pass of the loop over the region list (lines 462-547): the entry is skipped, or it
  gives a face, or reading it throws (a description whose area has no attributes).
\<close>

datatype region_reading = Skipped | FaceFound FaceRegion | Broken

definition faceOf :: "string option \<Rightarrow> string option \<Rightarrow> FaceBox \<Rightarrow> region_reading" where
  "faceOf name ty box =
     (case name of
        None \<Rightarrow> Skipped
      | Some n \<Rightarrow>
          if ty \<noteq> Some ''Face'' \<or> n = [] then Skipped
          else FaceFound \<lparr>face_name = n, face_box = centerToCorner box\<rparr>)"

definition readRegion :: "int \<Rightarrow> MediaDimension \<Rightarrow> RegionRoot \<Rightarrow> region_reading" where
  "readRegion orientation sz regionRoot =
     (case (case rdf_Description regionRoot of
              None \<Rightarrow> None
            | Some region \<Rightarrow>
                (case mwg_rs_Area region of None \<Rightarrow> None | Some a \<Rightarrow> Some (region, a))) of
        Some (region, a) \<Rightarrow>
          (case attributes a of
             None \<Rightarrow> Broken
           | Some regionBox \<Rightarrow>
               faceOf (mwg_rs_Name region) (mwg_rs_Type region)
                 (createFaceBox orientation sz (area_w regionBox) (area_h regionBox)
                    (area_x regionBox) (area_y regionBox)))
      | None \<Rightarrow>
          (case region_Area regionRoot of
             None \<Rightarrow> Skipped
           | Some regionBox \<Rightarrow>
               if truthy_string (region_Name regionRoot) \<and> truthy_string (region_Type regionRoot)
               then faceOf (region_Name regionRoot) (region_Type regionRoot)
                      (createFaceBox orientation sz (area_w regionBox) (area_h regionBox)
                         (area_x regionBox) (area_y regionBox))
               else Skipped))"

fun readRegions ::
  "int \<Rightarrow> MediaDimension \<Rightarrow> RegionRoot list \<Rightarrow> FaceRegion list \<Rightarrow> FaceRegion list option" where
  "readRegions orientation sz [] found = Some found"
| "readRegions orientation sz (regionRoot # rest) found =
     (case readRegion orientation sz regionRoot of
        Skipped \<Rightarrow> readRegions orientation sz rest found
      | FaceFound f \<Rightarrow> readRegions orientation sz rest (found @ [f])
      | Broken \<Rightarrow> None)"

text \<open>
  Lines 456-561. With \<open>keywordsToPersons\<close> the name of each face is taken out of the
  keywords, its first occurrence; \<open>metadata.keywords.indexOf\<close> throws when the photo has
  no keywords.
\<close>

definition facesSection ::
  "LoaderEnv \<Rightarrow> ExifData \<Rightarrow> int \<Rightarrow> PhotoMetadata \<Rightarrow> PhotoMetadata run" where
  "facesSection env e orientation m =
     (if \<not> faces_enabled env then Normal m
      else
        (case (case mwg_rs e of None \<Rightarrow> None | Some rs \<Rightarrow> mwg_Regions rs) of
           None \<Rightarrow> Normal m
         | Some regions \<Rightarrow>
             (case readRegions orientation (size' m) (RegionList regions) [] of
                None \<Rightarrow> Thrown m
              | Some found \<Rightarrow>
                  if found = [] then Normal m
                  else
                    (let m1 = m\<lparr>faces := Some found\<rparr> in
                     if keywordsToPersons env then
                       (case keywords' m1 of
                          None \<Rightarrow> Thrown m1
                        | Some kws \<Rightarrow>
                            Normal (m1\<lparr>keywords' :=
                                         Some (fold (\<lambda>f. remove1 (face_name f)) found kws)\<rparr>))
                     else Normal m1))))"

text \<open>
  The \<open>try\<close> of lines 284-564, in two parts. \<open>exifHead\<close> is the dc, ifd0 and exif
  sections (lines 290-394): an exception in the creation date ends the block before the
  camera data is read. \<open>exifBlock\<close> is the whole: \<open>exifr.parse\<close> that throws, or answers
  \<open>undefined\<close>, ends it at once, and an exception in \<open>exifHead\<close> ends it before the gps
  section, the size, the rating and the faces.
\<close>

definition exifHead :: "LoaderEnv \<Rightarrow> ExifData \<Rightarrow> PhotoMetadata \<Rightarrow> PhotoMetadata run" where
  "exifHead env e m =
     (case exif e of
        None \<Rightarrow> Normal (ifd0Section e (dcSection e m))
      | Some x \<Rightarrow>
          (case creationSection env e x (ifd0Section e (dcSection e m)) of
             Thrown t \<Rightarrow> Thrown t
           | Normal m2 \<Rightarrow> Normal (cameraSection env x m2)))"

definition exifBlock :: "LoaderEnv \<Rightarrow> PhotoMetadata \<Rightarrow> PhotoMetadata run" where
  "exifBlock env m =
     (case exifr_parse env of
        None \<Rightarrow> Thrown m
      | Some e \<Rightarrow>
          (case exifHead env e m of
             Thrown t \<Rightarrow> Thrown t
           | Normal m3 \<Rightarrow>
               facesSection env e (orientationOf e)
                 (xmpSection e
                    (swapSides (orientationOf e) (fixSize env (gpsSection env e m3))))))"

text \<open>Lines 566-569: \<open>if (!metadata.creationDate) metadata.creationDate = 0\<close>.\<close>

definition zeroIfFalsy :: "PhotoMetadata \<Rightarrow> PhotoMetadata" where
  "zeroIfFalsy m = m\<lparr>creationDate := js_or (creationDate m) (Some 0)\<rparr>"

text \<open>
  \<open>loadPhotoMetadata\<close> (lines 177-618). A header that cannot be read gives
  \<open>EMPTY_METADATA\<close>; otherwise the stat, the IPTC section, the exif block and the
  sidecars fill the record in, in this order.
\<close>

definition loadPhotoMetadata :: "LoaderEnv \<Rightarrow> PhotoMetadata" where
  "loadPhotoMetadata env =
     (if \<not> header_read env then EMPTY_METADATA
      else
        (let m1 = iptcSection (iptc env) (statSection (file_stat env) initialPhotoMetadata);
             m2 = zeroIfFalsy (caught (exifBlock env m1))
         in caught (mergeSidecars (sidecars env) m2)))"

section \<open>Notions of the claims\<close>

text \<open>
  These definitions do not model code; the theorems use them to say what the code does.
  \<open>declared\<close> is the rating a sidecar candidate declares; \<open>runsThrough\<close> holds of a
  candidate on which the loop cannot throw; \<open>lastDeclared\<close> is the rating of the last
  candidate, in the order probed, that declares one.
\<close>

definition declared :: "candidate \<Rightarrow> int option" where
  "declared c =
     (case c of
        Parsed (Some sidecarData) \<Rightarrow>
          (case sidecar_xmp sidecarData of None \<Rightarrow> None | Some x \<Rightarrow> Rating x)
      | Parsed None \<Rightarrow> None
      | Missing \<Rightarrow> None
      | Unparsable \<Rightarrow> None)"

definition runsThrough :: "candidate \<Rightarrow> bool" where
  "runsThrough c =
     (case c of
        Parsed (Some sidecarData) \<Rightarrow>
          sidecar_dc sidecarData \<noteq> None \<and> sidecar_xmp sidecarData \<noteq> None
      | Parsed None \<Rightarrow> True
      | Missing \<Rightarrow> True
      | Unparsable \<Rightarrow> False)"

fun lastDeclared :: "candidate list \<Rightarrow> int option" where
  "lastDeclared [] = None"
| "lastDeclared (c # cs) =
     (case lastDeclared cs of None \<Rightarrow> declared c | Some r \<Rightarrow> Some r)"

text \<open>
  \<open>keywordsDistinct\<close>: no keyword of the record occurs twice. \<open>iptcKeywordsDistinct\<close>: the
  keyword array of the IPTC section, when there is one, has no entry twice.
  \<open>sizeAtLeastOne\<close>: both sides of the record's size are at least 1. \<open>creationRuns\<close>: the
  exif section is not one on which the creation date throws (CreateDate without
  OffsetTimeDigitized and with no DateTimeOriginal property). \<open>imageSizeValid\<close>: when
  \<open>imageSize\<close> answers, both sides it reports are at least 1.
\<close>

definition keywordsDistinct :: "'a MediaMetadata_scheme \<Rightarrow> bool" where
  "keywordsDistinct m = (case keywords' m of None \<Rightarrow> True | Some k \<Rightarrow> distinct k)"

definition iptcKeywordsDistinct :: "LoaderEnv \<Rightarrow> bool" where
  "iptcKeywordsDistinct env =
     (case iptc env of
        None \<Rightarrow> True
      | Some d \<Rightarrow>
          (case iptc_keywords d of
             None \<Rightarrow> True
           | Some (One s) \<Rightarrow> True
           | Some (Many l) \<Rightarrow> distinct l))"

definition sizeAtLeastOne :: "'a MediaMetadata_scheme \<Rightarrow> bool" where
  "sizeAtLeastOne m = (1 \<le> width (size' m) \<and> 1 \<le> height (size' m))"

definition creationThrows :: "ExifSection \<Rightarrow> bool" where
  "creationThrows x =
     (DateTimeOriginal x = None \<and> truthy_string (CreateDate x) \<and>
      \<not> truthy_string (OffsetTimeDigitized x))"

definition creationRuns :: "ExifData \<Rightarrow> bool" where
  "creationRuns e = (case exif e of None \<Rightarrow> True | Some x \<Rightarrow> \<not> creationThrows x)"

definition imageSizeValid :: "LoaderEnv \<Rightarrow> bool" where
  "imageSizeValid env =
     (case imageSize env of None \<Rightarrow> True | Some (w, h) \<Rightarrow> 1 \<le> w \<and> 1 \<le> h)"

text \<open>
  The stream \<open>loadVideoMetadata\<close> reads: the first whose width is truthy. \<open>streamCreation\<close>
  and \<open>formatCreation\<close> are what \<open>Date.parse\<close> makes of the creation time of that stream
  and of the container, \<open>NaN\<close> when the tag is missing.
\<close>

definition firstVideoStream :: "Stream list \<Rightarrow> Stream option" where
  "firstVideoStream ss =
     find (\<lambda>s. case stream_width s of None \<Rightarrow> False | Some w \<Rightarrow> w \<noteq> 0) ss"

definition streamHasTags :: "Stream list \<Rightarrow> bool" where
  "streamHasTags ss =
     (case firstVideoStream ss of None \<Rightarrow> True | Some s \<Rightarrow> stream_tags s \<noteq> None)"

definition streamCreation :: "LoaderEnv \<Rightarrow> Stream list \<Rightarrow> int option" where
  "streamCreation env ss =
     (case firstVideoStream ss of
        None \<Rightarrow> None
      | Some s \<Rightarrow>
          (case stream_tags s of None \<Rightarrow> None | Some t \<Rightarrow> parseTag env (creation_time t)))"

definition formatCreation :: "LoaderEnv \<Rightarrow> Format \<Rightarrow> int option" where
  "formatCreation env f =
     (case format_tags f of None \<Rightarrow> None | Some t \<Rightarrow> parseTag env (creation_time t))"

section \<open>Example inputs\<close>

text \<open>
  A persisted directory \<open>holiday\<close> with the photos \<open>a.jpg\<close> and \<open>b.jpg\<close>, and a scan of it
  that finds \<open>a.jpg\<close> only. The objects read from the store and the objects built by the
  scan are different objects with the same contents.
\<close>

definition exampleMetadata :: "ref \<Rightarrow> EntityMetadata" where
  "exampleMetadata r =
     \<lparr>e_keywords = Obj r [''sea''], e_cameraData = Absent, e_positionData = Absent,
      e_size = Obj (r + 1) \<lparr>width = 100, height = 50\<rparr>, e_creationDate = 1000\<rparr>"

definition examplePhoto :: "nat option \<Rightarrow> string \<Rightarrow> ref \<Rightarrow> Photo" where
  "examplePhoto i n r =
     \<lparr>photo_id = i, photo_name = n, photo_directory = NoDirectory,
      photo_metadata = exampleMetadata r, readyThumbnails = [], readyIcon = False\<rparr>"

definition exampleDirectory :: "nat option \<Rightarrow> int \<Rightarrow> int \<Rightarrow> Photo list \<Rightarrow> Directory" where
  "exampleDirectory i modified scannedAt ps =
     Directory \<lparr>dir_id = i, dir_name = ''holiday'', dir_path = ''./'',
                dir_parent = NoDirectory, scanned = True, lastModified = modified,
                lastScanned = scannedAt, isPartial = False, photos = ps\<rparr> []"

definition indexedPhotosExample :: "Photo list" where
  "indexedPhotosExample =
     [examplePhoto (Some 1) ''a.jpg'' 10, examplePhoto (Some 2) ''b.jpg'' 20]"

definition scannedPhotosExample :: "Photo list" where
  "scannedPhotosExample = [examplePhoto None ''a.jpg'' 30]"

definition exampleEnv :: "ReIndexingSensitivity \<Rightarrow> int \<Rightarrow> int \<Rightarrow> GalleryEnv" where
  "exampleEnv s modified scannedAt =
     \<lparr>stat_times = Some (modified - 1, modified),
      persisted = Some (exampleDirectory (Some 7) modified scannedAt indexedPhotosExample),
      preview = (\<lambda>d. []),
      now1 = scannedAt + 5,
      now2 = scannedAt + 6,
      indexing = \<lparr>reIndexingSensitivity = s, cachedFolderTimeout = 10, folderPreviewSize = 2\<rparr>,
      scan_result = Inr (exampleDirectory None modified (scannedAt + 5) scannedPhotosExample),
      parent_query = Some (exampleDirectory (Some 7) modified scannedAt []),
      children_query = [],
      photos_query = indexedPhotosExample,
      next_id = 100,
      next_ref = 1000\<rparr>"

text \<open>
  Inputs of the loaders. \<open>plainEnv\<close> is a file whose header can be read, of 2048 bytes,
  modified at 1700000000000, in which no parser finds anything, with no sidecar; the
  other inputs change it where they say.
\<close>

definition exampleDateParse :: "string \<Rightarrow> int option" where
  "exampleDateParse s =
     (if s = ''2020-01-02 03:04:05+00:00'' then Some 1577934245000
      else if s = ''2021-05-06T07:08:09.000000Z'' then Some 1620284889000
      else if s = ''2022-03-04T05:06:07.000000Z'' then Some 1646370367000
      else None)"

definition plainEnv :: LoaderEnv where
  "plainEnv =
     \<lparr>header_read = True, file_stat = Some (2048, 1700000000000), iptc = None,
      exifr_parse = None, imageSize = Some (640, 480), faces_enabled = True,
      keywordsToPersons = False, sidecars = [Missing, Missing, Missing, Missing],
      ffprobe = None, Date_parse = exampleDateParse, number_to_string = (\<lambda>x. ''0''),
      isInt32 = (\<lambda>n. - 2147483648 \<le> n \<and> n \<le> 2147483647),
      isUInt32 = (\<lambda>n. 0 \<le> n \<and> n \<le> 4294967295),
      isFloat32 = (\<lambda>x. True)\<rparr>"

definition noExif :: ExifData where
  "noExif = \<lparr>dc = None, ifd0 = None, exif = None, gps = None, xmp = None, mwg_rs = None\<rparr>"

definition noExifTags :: ExifSection where
  "noExifTags =
     \<lparr>DateTimeOriginal = None, OffsetTimeOriginal = None, OffsetTimeDigitized = None,
      OffsetTime = None, CreateDate = None, LensModel = None, ISOTag = None,
      FocalLength = None, ExposureTime = None, FNumber = None, ExifImageWidth = None,
      ExifImageHeight = None\<rparr>"

definition noIptc :: IptcData where
  "noIptc =
     \<lparr>country_or_primary_location_name = None, province_or_state = None, iptc_city = None,
      object_name = None, iptc_caption = None, iptc_keywords = None, date_time = None\<rparr>"

definition sidecarWith :: "subject_value option \<Rightarrow> int option \<Rightarrow> candidate" where
  "sidecarWith subj r =
     Parsed (Some \<lparr>sidecar_dc = Some \<lparr>subject = subj\<rparr>, sidecar_xmp = Some \<lparr>Rating = r\<rparr>\<rparr>)"

text \<open>A file whose header cannot be read.\<close>

definition unreadableEnv :: LoaderEnv where
  "unreadableEnv = plainEnv\<lparr>header_read := False\<rparr>"

text \<open>A photo whose exif section holds CreateDate and nothing else.\<close>

definition createDateEnv :: LoaderEnv where
  "createDateEnv =
     plainEnv\<lparr>exifr_parse :=
       Some (noExif\<lparr>exif := Some (noExifTags\<lparr>CreateDate := Some ''2020:01:02 03:04:05''\<rparr>)\<rparr>)\<rparr>"

text \<open>A photo with an embedded xmp rating and its sidecar candidates.\<close>

definition ratedEnv :: "int \<Rightarrow> candidate list \<Rightarrow> LoaderEnv" where
  "ratedEnv embedded cs =
     plainEnv\<lparr>exifr_parse := Some (noExif\<lparr>xmp := Some \<lparr>Rating = Some embedded\<rparr>\<rparr>),
              sidecars := cs\<rparr>"

text \<open>A sidecar that declares the rating 5 and has no \<open>dc\<close> section.\<close>

definition ratingOnlySidecar :: candidate where
  "ratingOnlySidecar =
     Parsed (Some \<lparr>sidecar_dc = None, sidecar_xmp = Some \<lparr>Rating = Some 5\<rparr>\<rparr>)"

text \<open>A photo whose IPTC section lists the keyword \<open>sea\<close> twice.\<close>

definition repeatedKeywordEnv :: LoaderEnv where
  "repeatedKeywordEnv =
     plainEnv\<lparr>iptc := Some (noIptc\<lparr>iptc_keywords := Some (Many [''sea'', ''sea''])\<rparr>),
              exifr_parse := Some noExif\<rparr>"

text \<open>
  A photo of 1000 x 800 at orientation 1 with one face region, of the ratios
  w = 0.2, h = 0.1, x = 0.5, y = 0.5.
\<close>

definition faceArea :: Area where
  "faceArea = \<lparr>area_w = Some (1 / 5), area_h = Some (1 / 10), area_x = Some (1 / 2),
               area_y = Some (1 / 2)\<rparr>"

definition faceEnv :: LoaderEnv where
  "faceEnv =
     plainEnv\<lparr>exifr_parse := Some (noExif\<lparr>
       ifd0 := Some \<lparr>ImageWidth = Some 1000, ImageHeight = Some 800, Orientation = Some 1,
                     Make = None, Model = None, ModifyDate = None\<rparr>,
       mwg_rs := Some \<lparr>mwg_Regions = Some \<lparr>RegionList =
         [\<lparr>rdf_Description = None, region_Name = Some ''Ann'', region_Type = Some ''Face'',
           region_Area = Some faceArea\<rparr>]\<rparr>\<rparr>\<rparr>)\<rparr>"

text \<open>
  A video whose stream and whose container both carry a creation time that
  \<open>Date.parse\<close> reads.
\<close>

definition exampleStream :: Stream where
  "exampleStream =
     \<lparr>stream_width = Some 1920, stream_height = 1080, rotation = None,
      stream_duration = Some 12, bit_rate = Some 800000, avg_frame_rate = Some 30,
      stream_tags = Some \<lparr>creation_time = Some ''2021-05-06T07:08:09.000000Z''\<rparr>\<rparr>"

definition exampleFormat :: Format where
  "exampleFormat =
     \<lparr>format_duration = Some 12, format_bit_rate = Some 900000,
      format_tags = Some \<lparr>creation_time = Some ''2022-03-04T05:06:07.000000Z''\<rparr>\<rparr>"

definition videoEnv :: LoaderEnv where
  "videoEnv =
     plainEnv\<lparr>ffprobe := Some \<lparr>streams = [exampleStream], format = Some exampleFormat\<rparr>\<rparr>"

section \<open>Theorems\<close>

lemma returnIndex_not_NoData: "response (returnIndex env) \<noteq> Inr NoData"
  by (simp add: returnIndex_def split: sum.splits)

lemma serveOrRescan_not_NoData: "response (serveOrRescan env m dir) \<noteq> Inr NoData"
  by (simp add: serveOrRescan_def returnIndex_not_NoData)

lemma serveOrRescan_response:
  "response (serveOrRescan env m dir) =
     (if lastModified (fields_of dir) = m then Inr (Tree (persistedView env dir))
      else response (returnIndex env))"
  by (simp add: serveOrRescan_def)

subsection \<open>The short cut of listDirectory\<close>

text \<open>
  C2, as the code has it. When a persisted scanned record exists, both values the caller
  supplies are nonzero, the disk's lastModified equals the caller's knownLastModified and
  the persisted lastScanned equals the caller's knownLastScanned, then \<open>listDirectory\<close>
  answers \<open>null\<close> (no data) and writes nothing, if the sensitivity is low, or if it is
  medium and \<open>now - lastScanned\<close> is at most \<open>cachedFolderTimeout\<close>.
\<close>

theorem listDirectory_cached_copy_valid:
  assumes "stat_times env = Some (ctime, mtime)"
    and "persisted env = Some dir"
    and "scanned (fields_of dir)"
    and "knownLastModified = Some m" and "m \<noteq> 0"
    and "knownLastScanned = Some s" and "s \<noteq> 0"
    and "max ctime mtime = m"
    and "lastScanned (fields_of dir) = s"
    and "reIndexingSensitivity (indexing env) = low \<or>
         (reIndexingSensitivity (indexing env) = medium \<and>
          now1 env - lastScanned (fields_of dir) \<le> cachedFolderTimeout (indexing env))"
  shows "listDirectory env knownLastModified knownLastScanned
           = \<lparr>response = Inr NoData, db_calls = []\<rparr>"
proof -
  have "cachedCopyValid env (max ctime mtime) dir knownLastModified knownLastScanned"
    using assms by (auto simp: cachedCopyValid_def)
  then show ?thesis
    using assms(1-3) by (simp add: listDirectory_def)
qed

theorem listDirectory_cached_copy_valid_witness:
  "listDirectory (exampleEnv low 500 400) (Some 500) (Some 400)
     = \<lparr>response = Inr NoData, db_calls = []\<rparr> \<and>
   listDirectory (exampleEnv medium 500 400) (Some 500) (Some 400)
     = \<lparr>response = Inr NoData, db_calls = []\<rparr>"
proof -
  have a: "listDirectory (exampleEnv low 500 400) (Some 500) (Some 400)
             = \<lparr>response = Inr NoData, db_calls = []\<rparr>"
    by (rule listDirectory_cached_copy_valid
          [where ctime = 499 and mtime = 500 and m = 500 and s = 400
             and dir = "exampleDirectory (Some 7) 500 400 indexedPhotosExample"])
       (simp_all add: exampleEnv_def exampleDirectory_def)
  have b: "listDirectory (exampleEnv medium 500 400) (Some 500) (Some 400)
             = \<lparr>response = Inr NoData, db_calls = []\<rparr>"
    by (rule listDirectory_cached_copy_valid
          [where ctime = 499 and mtime = 500 and m = 500 and s = 400
             and dir = "exampleDirectory (Some 7) 500 400 indexedPhotosExample"])
       (simp_all add: exampleEnv_def exampleDirectory_def)
  from a b show ?thesis by simp
qed

text \<open>
  C2 as the spec states it fails where the matching values are zero: the record is
  persisted and scanned, the disk's lastModified (0) equals knownLastModified, the
  persisted lastScanned (0) equals knownLastScanned, the sensitivity is low, and the
  answer is the persisted tree, not \<open>null\<close>.
\<close>

theorem listDirectory_cached_copy_counterexample:
  "stat_times (exampleEnv low 0 0) = Some (- 1, 0) \<and>
   persisted (exampleEnv low 0 0) = Some (exampleDirectory (Some 7) 0 0 indexedPhotosExample) \<and>
   scanned (fields_of (exampleDirectory (Some 7) 0 0 indexedPhotosExample)) \<and>
   js_eq_opt (max (- 1) 0) (Some 0) \<and>
   js_eq_opt (lastScanned (fields_of (exampleDirectory (Some 7) 0 0 indexedPhotosExample))) (Some 0) \<and>
   reIndexingSensitivity (indexing (exampleEnv low 0 0)) = low \<and>
   response (listDirectory (exampleEnv low 0 0) (Some 0) (Some 0)) \<noteq> Inr NoData"
  by (simp add: listDirectory_def exampleEnv_def exampleDirectory_def cachedCopyValid_def
        serveOrRescan_def)

text \<open>
  C10. When either value the caller supplies is 0 or omitted, \<open>listDirectory\<close> never
  answers \<open>null\<close>: once the directory's stat is read, it answers the persisted tree when
  a scanned record is persisted whose lastModified equals the disk's, and the result of
  \<open>indexDirectory\<close> in every other case, whatever the stored lastModified and
  lastScanned are.
\<close>

theorem listDirectory_short_cut_needs_known_values:
  assumes "\<not> truthy knownLastModified \<or> \<not> truthy knownLastScanned"
  shows "response (listDirectory env knownLastModified knownLastScanned) \<noteq> Inr NoData \<and>
         (\<forall>ctime mtime.
            stat_times env = Some (ctime, mtime) \<longrightarrow>
            response (listDirectory env knownLastModified knownLastScanned) =
              (case persisted env of
                 None \<Rightarrow> response (returnIndex env)
               | Some dir \<Rightarrow>
                   if scanned (fields_of dir) \<and> lastModified (fields_of dir) = max ctime mtime
                   then Inr (Tree (persistedView env dir))
                   else response (returnIndex env)))"
proof -
  have no: "\<And>m dir. \<not> cachedCopyValid env m dir knownLastModified knownLastScanned"
    using assms by (auto simp: cachedCopyValid_def)
  show ?thesis
    by (auto simp: listDirectory_def Let_def no serveOrRescan_response returnIndex_not_NoData
             serveOrRescan_not_NoData split: option.splits)
qed

text \<open>
  The caller supplies 0 and 0, the disk's lastModified is 0 and the persisted lastScanned
  is 0: the values are equal, and the answer is the persisted tree.
\<close>

theorem listDirectory_short_cut_needs_known_values_witness:
  "\<not> truthy (Some 0) \<and>
   js_eq_opt (max (- 1) 0) (Some 0) \<and>
   js_eq_opt (lastScanned (fields_of (exampleDirectory (Some 7) 0 0 indexedPhotosExample))) (Some 0) \<and>
   response (listDirectory (exampleEnv low 0 0) (Some 0) (Some 0)) =
     Inr (Tree (persistedView (exampleEnv low 0 0)
                  (exampleDirectory (Some 7) 0 0 indexedPhotosExample)))"
proof -
  have h: "\<not> truthy (Some 0) \<or> \<not> truthy (Some 0)" by simp
  have e: "stat_times (exampleEnv low 0 0) = Some (- 1, 0)"
    by (simp add: exampleEnv_def)
  have p: "persisted (exampleEnv low 0 0)
             = Some (exampleDirectory (Some 7) 0 0 indexedPhotosExample)"
    by (simp add: exampleEnv_def)
  from listDirectory_short_cut_needs_known_values [OF h, of "exampleEnv low 0 0"] e
  have "response (listDirectory (exampleEnv low 0 0) (Some 0) (Some 0)) =
          (case persisted (exampleEnv low 0 0) of
             None \<Rightarrow> response (returnIndex (exampleEnv low 0 0))
           | Some dir \<Rightarrow>
               if scanned (fields_of dir) \<and> lastModified (fields_of dir) = max (- 1) 0
               then Inr (Tree (persistedView (exampleEnv low 0 0) dir))
               else response (returnIndex (exampleEnv low 0 0)))"
    by blast
  then show ?thesis by (simp add: p) (simp add: exampleDirectory_def)
qed

subsection \<open>Reconciling the photos of a directory\<close>

lemma takeFirst_none: "\<forall>x \<in> set xs. \<not> P x \<Longrightarrow> takeFirst P xs = (None, xs)"
  by (induction xs) auto

lemma takeFirst_some:
  "takeFirst P xs = (Some x, ys) \<Longrightarrow> x \<in> set xs \<and> P x \<and> length xs = Suc (length ys)"
  by (induction xs arbitrary: ys) (auto split: if_splits prod.splits)

text \<open>
  Two objects with different addresses differ under \<open>!=\<close>, whatever they hold: a photo
  read from the store and the same photo scanned again always differ in \<open>size\<close>.
\<close>

lemma metadata_differs_fresh_size:
  "e_size a = Obj r v \<Longrightarrow> e_size b = Obj r' v' \<Longrightarrow> r \<noteq> r' \<Longrightarrow> metadata_differs a b"
  by (simp add: metadata_differs_def)

text \<open>
  What the loop over the scanned photos leaves to be removed, when no two persisted photos
  share a name: the persisted photos that have no namesake in the scan. With one photo
  deleted from disk and the other names unchanged, that is the deleted photo alone.
\<close>

lemma filter_other_key: "k \<notin> f ` set xs \<Longrightarrow> filter (\<lambda>x. f x \<noteq> k) xs = xs"
  by (induction xs) auto

lemma takeFirst_unique:
  "distinct (map f xs) \<Longrightarrow>
   takeFirst (\<lambda>x. f x = k) xs = (find (\<lambda>x. f x = k) xs, filter (\<lambda>x. f x \<noteq> k) xs)"
  by (induction xs) (auto simp: filter_other_key)

lemma indexPhotos_remaining:
  "distinct (map photo_name indexed) \<Longrightarrow>
   fst (indexPhotos parentDir scannedPhotos indexed photosToSave r) =
     filter (\<lambda>p. photo_name p \<notin> photo_name ` set scannedPhotos) indexed"
proof (induction scannedPhotos arbitrary: indexed photosToSave r)
  case Nil
  show ?case by simp
next
  case (Cons sp rest)
  have d: "distinct (map photo_name (filter (\<lambda>p. photo_name p \<noteq> photo_name sp) indexed))"
    using Cons.prems by (rule distinct_map_filter)
  show ?case
    by (simp add: takeFirst_unique [OF Cons.prems] Let_def Cons.IH [OF d])
qed

lemma filter_only: "distinct xs \<Longrightarrow> x \<in> set xs \<Longrightarrow> filter (\<lambda>y. y = x) xs = [x]"
  by (induction xs) (auto simp: filter_empty_conv)

lemma indexPhotos_removes_deleted:
  assumes "distinct (map photo_name indexed)" and "deleted \<in> set indexed"
    and "photo_name ` set scannedPhotos = photo_name ` (set indexed - {deleted})"
  shows "fst (indexPhotos parentDir scannedPhotos indexed photosToSave r) = [deleted]"
proof -
  have inj: "inj_on photo_name (set indexed)" and dist: "distinct indexed"
    using assms(1) by (simp_all add: distinct_map)
  have "filter (\<lambda>p. photo_name p \<notin> photo_name ` set scannedPhotos) indexed
          = filter (\<lambda>p. p = deleted) indexed"
    using inj assms(2) by (intro filter_cong) (auto simp: assms(3) dest: inj_onD)
  then show ?thesis
    by (simp add: indexPhotos_remaining [OF assms(1)] filter_only [OF dist assms(2)])
qed

lemma indexPhotos_saves_match:
  assumes "takeFirst (\<lambda>p. photo_name p = photo_name sp) indexed = (Some p, indexed')"
    and "e_size (photo_metadata p) = Obj a v" and "e_size (photo_metadata sp) = Obj b w"
    and "a \<noteq> b"
  shows "indexPhotos parentDir (sp # rest) indexed photosToSave r =
           indexPhotos parentDir rest indexed'
             (photosToSave @ [take_metadata p (photo_metadata sp)]) r"
  using assms by (simp add: metadata_differs_def)

text \<open>
  C4 at the failing input. The directory \<open>holiday\<close> is persisted with the photos \<open>a.jpg\<close>
  and \<open>b.jpg\<close>; \<open>b.jpg\<close> was deleted from disk and \<open>a.jpg\<close> is unchanged (the same
  keywords and size, no camera or position data). \<open>indexDirectory\<close> removes \<open>b.jpg\<close>, and
  it also saves \<open>a.jpg\<close>: \<open>photosToSave\<close> is not empty, because the scanned \<open>size\<close> and
  \<open>keywords\<close> are other objects than the persisted ones.
\<close>

theorem indexDirectory_saves_unchanged_photo:
  "calls (indexDirectory (Inr (exampleDirectory None 500 405 scannedPhotosExample))
            (Some (exampleDirectory (Some 7) 500 400 [])) [] indexedPhotosExample 100 1000)
   = [SaveDirectory (exampleDirectory (Some 7) 500 405 []),
      RemoveDirectories [],
      SavePhotos [(examplePhoto (Some 1) ''a.jpg'' 10)\<lparr>photo_metadata := exampleMetadata 30\<rparr>],
      RemovePhotos [examplePhoto (Some 2) ''b.jpg'' 20]]"
  by (simp add: indexDirectory_def exampleDirectory_def scannedPhotosExample_def
        indexedPhotosExample_def examplePhoto_def exampleMetadata_def metadata_differs_def
        take_metadata_def)

subsection \<open>The sidecar merge\<close>

lemma js_or_assoc: "js_or (js_or a b) c = js_or a (js_or b c)"
  by (cases a) auto

lemma readSidecar_creationDate: "creationDate (caught (readSidecar d m)) = creationDate m"
  by (simp add: readSidecar_def Let_def split: option.splits)


lemma readSidecar_Normal_rating:
  "readSidecar d m = Normal t \<Longrightarrow>
   rating t = (case declared (Parsed (Some d)) of None \<Rightarrow> rating m | Some r \<Rightarrow> Some r)"
  by (auto simp: readSidecar_def declared_def Let_def split: option.splits)

lemma readSidecar_runs:
  "runsThrough (Parsed (Some d)) \<Longrightarrow> \<exists>t. readSidecar d m = Normal t"
  by (auto simp: readSidecar_def runsThrough_def Let_def split: option.splits)

lemma mergeSidecars_creationDate:
  "creationDate (caught (mergeSidecars cs m)) = creationDate m"
proof (induction cs m rule: mergeSidecars.induct)
  case (5 sidecarData rest m)
  show ?case
  proof (cases "readSidecar sidecarData m")
    case (Normal t)
    with 5 [OF Normal] readSidecar_creationDate [of sidecarData m] show ?thesis by simp
  next
    case (Thrown t)
    with readSidecar_creationDate [of sidecarData m] show ?thesis by simp
  qed
qed simp_all


lemma mergeSidecars_runs:
  "list_all runsThrough cs \<Longrightarrow>
   \<exists>t. mergeSidecars cs m = Normal t \<and>
        rating t = (case lastDeclared cs of None \<Rightarrow> rating m | Some r \<Rightarrow> Some r)"
proof (induction cs m rule: mergeSidecars.induct)
  case (1 m)
  then show ?case by simp
next
  case (2 rest m)
  then show ?case by (auto simp: declared_def split: option.splits)
next
  case (3 rest m)
  then show ?case by (simp add: runsThrough_def)
next
  case (4 rest m)
  then show ?case by (auto simp: declared_def split: option.splits)
next
  case (5 sidecarData rest m)
  then have run: "runsThrough (Parsed (Some sidecarData))" and rest: "list_all runsThrough rest"
    by simp_all
  from readSidecar_runs [OF run] obtain t where t: "readSidecar sidecarData m = Normal t"
    by blast
  from "5.IH" [OF t rest] obtain u where
    u: "mergeSidecars rest t = Normal u"
       "rating u = (case lastDeclared rest of None \<Rightarrow> rating t | Some r \<Rightarrow> Some r)"
    by blast
  from t u readSidecar_Normal_rating [OF t] show ?case
    by (simp split: option.splits)
qed

lemma readStreams_first:
  "readStreams env ss m =
     (case firstVideoStream ss of
        None \<Rightarrow> Normal m
      | Some s \<Rightarrow> readStream env s (the (stream_width s)) m)"
  by (induction ss) (auto simp: firstVideoStream_def split: option.splits)

lemma readStream_tags:
  "stream_tags s = Some t \<Longrightarrow>
   \<exists>m'. readStream env s w m = Normal m' \<and>
        creationDate m' = js_or (parseTag env (creation_time t)) (creationDate m)"
  by (simp add: readStream_def Let_def split: option.splits)

lemma readFormat_creation:
  "\<exists>m'. readFormat env (Some f) m = Normal m' \<and>
        creationDate m' = js_or (formatCreation env f) (creationDate m)"
  by (simp add: readFormat_def formatCreation_def parseTag_def Let_def split: option.splits)

subsection \<open>The rating through loadPhotoMetadata\<close>


















text \<open>
  Where the rating of a sidecar does replace the embedded one: when the header of the
  photo can be read and no candidate makes the loop throw (each is missing, or parses to
  \<open>undefined\<close>, or parses to a sidecar with a \<open>dc\<close> and an \<open>xmp\<close> section), the rating of
  the record is the rating of the last candidate, in the order probed, that declares one.
  An embedded rating of 3 with such a sidecar declaring 5 gives 5.
\<close>

lemma sidecar_rating_last_wins:
  assumes "header_read env" and "list_all runsThrough (sidecars env)"
    and "lastDeclared (sidecars env) = Some r"
  shows "rating (loadPhotoMetadata env) = Some r"
proof -
  define m2 where "m2 = zeroIfFalsy (caught (exifBlock env
     (iptcSection (iptc env) (statSection (file_stat env) initialPhotoMetadata))))"
  from mergeSidecars_runs [OF assms(2), of m2] assms(3) obtain t where
    "mergeSidecars (sidecars env) m2 = Normal t" and "rating t = Some r"
    by auto
  with assms(1) show ?thesis
    by (simp add: loadPhotoMetadata_def Let_def m2_def)
qed

lemma embedded_rating_example:
  "rating (loadPhotoMetadata (ratedEnv 3 [Missing, Missing, Missing, Missing])) = Some 3"
  by (simp add: loadPhotoMetadata_def ratedEnv_def plainEnv_def
        initialPhotoMetadata_def statSection_def iptcSection_def exifBlock_def exifHead_def
        zeroIfFalsy_def noExif_def dcSection_def ifd0Section_def orientationOf_def
        whenString_def gpsSection_def fixSize_def swapSides_def xmpSection_def
        facesSection_def)

lemma sidecar_rating_last_wins_example:
  "rating (loadPhotoMetadata (ratedEnv 3 [sidecarWith None (Some 5), Missing, Missing, Missing]))
     = Some 5"
proof -
  have a: "header_read (ratedEnv 3 [sidecarWith None (Some 5), Missing, Missing, Missing])"
    by (simp add: ratedEnv_def plainEnv_def)
  have b: "list_all runsThrough
             (sidecars (ratedEnv 3 [sidecarWith None (Some 5), Missing, Missing, Missing]))"
    by (simp add: ratedEnv_def plainEnv_def runsThrough_def sidecarWith_def)
  have c: "lastDeclared
             (sidecars (ratedEnv 3 [sidecarWith None (Some 5), Missing, Missing, Missing]))
           = Some 5"
    by (simp add: ratedEnv_def plainEnv_def declared_def sidecarWith_def)
  from sidecar_rating_last_wins [OF a b c] show ?thesis .
qed

text \<open>
  A sidecar that has no \<open>dc\<close> section throws at \<open>sidecarData.dc.subject\<close> before its rating
  is read, and leaves the record as it was.
\<close>

lemma readSidecar_without_dc: "sidecar_dc d = None \<Longrightarrow> readSidecar d m = Thrown m"
  by (simp add: readSidecar_def)

text \<open>
  C5 at the failing input. The embedded xmp rating is 3, and the first sidecar candidate
  exists, parses and declares the rating 5, with no \<open>dc\<close> section. The rating of the
  record that \<open>loadPhotoMetadata\<close> returns is 3, not 5: reading \<open>dc.subject\<close> throws, the
  one \<open>catch\<close> around the loop swallows it, and the rating of the sidecar is never read.
\<close>

theorem loadPhotoMetadata_sidecar_rating_lost:
  "header_read (ratedEnv 3 [ratingOnlySidecar, Missing, Missing, Missing]) \<and>
   declared ratingOnlySidecar = Some 5 \<and>
   rating (loadPhotoMetadata (ratedEnv 3 [ratingOnlySidecar, Missing, Missing, Missing]))
     = Some 3"
  by (simp add: loadPhotoMetadata_def ratedEnv_def plainEnv_def ratingOnlySidecar_def
        declared_def readSidecar_def initialPhotoMetadata_def statSection_def iptcSection_def
        exifBlock_def exifHead_def zeroIfFalsy_def noExif_def dcSection_def ifd0Section_def
        orientationOf_def whenString_def gpsSection_def fixSize_def swapSides_def
        xmpSection_def facesSection_def)




subsection \<open>The creation time of a video\<close>

lemma readStreams_creation:
  assumes "streamHasTags ss"
  shows "\<exists>m'. readStreams env ss m = Normal m' \<and>
              creationDate m' = js_or (streamCreation env ss) (creationDate m)"
proof (cases "firstVideoStream ss")
  case None
  then show ?thesis by (simp add: readStreams_first streamCreation_def)
next
  case (Some s)
  with assms obtain t where t: "stream_tags s = Some t"
    by (auto simp: streamHasTags_def)
  from readStream_tags [OF t, of env "the (stream_width s)" m] Some t show ?thesis
    by (simp add: readStreams_first streamCreation_def)
qed

lemma statSection_creationDate:
  "js_or (creationDate (statSection st initialVideoMetadata)) (Some 0)
     = js_or (map_option snd st) (Some 0)"
  by (cases st) (auto simp: statSection_def initialVideoMetadata_def)

text \<open>
  C6, as the code has it. When ffprobe answers with a format section and the stream that
  is read has tags, the creation time of the record is the first of these that resolves
  (\<open>Date.parse\<close> gives a number other than 0 and \<open>NaN\<close>): the creation time of the
  container format, then that of the stream, then the mtime of the file; and 0 when none
  does. So when both tags parse, the value of the container-format tag is the final
  creationDate.
\<close>

theorem video_creation_order:
  assumes "ffprobe env = Some data" and "format data = Some fmt"
    and "streamHasTags (streams data)"
  shows "creationDate (loadVideoMetadata env) =
           js_or (formatCreation env fmt)
             (js_or (streamCreation env (streams data))
                (js_or (map_option snd (file_stat env)) (Some 0)))"
proof -
  define m0 where "m0 = statSection (file_stat env) initialVideoMetadata"
  from readStreams_creation [OF assms(3), of env m0] obtain m1 where
    m1: "readStreams env (streams data) m0 = Normal m1"
        "creationDate m1 = js_or (streamCreation env (streams data)) (creationDate m0)"
    by blast
  from readFormat_creation [of env fmt m1] obtain m2 where
    m2: "readFormat env (Some fmt) m1 = Normal m2"
        "creationDate m2 = js_or (formatCreation env fmt) (creationDate m1)"
    by blast
  have "loadVideoMetadata env =
          caught (mergeSidecars (sidecars env) (m2\<lparr>creationDate := js_or (creationDate m2) (Some 0)\<rparr>))"
    using assms(1,2) m1(1) m2(1) by (simp add: loadVideoMetadata_def Let_def m0_def)
  then have "creationDate (loadVideoMetadata env) = js_or (creationDate m2) (Some 0)"
    by (simp add: mergeSidecars_creationDate)
  also have "\<dots> = js_or (formatCreation env fmt)
                     (js_or (streamCreation env (streams data)) (js_or (creationDate m0) (Some 0)))"
    by (simp add: m1(2) m2(2) js_or_assoc)
  finally show ?thesis
    by (simp add: m0_def statSection_creationDate)
qed

theorem video_creation_order_witness:
  "streamCreation videoEnv [exampleStream] = Some 1620284889000 \<and>
   formatCreation videoEnv exampleFormat = Some 1646370367000 \<and>
   creationDate (loadVideoMetadata videoEnv) = Some 1646370367000"
proof -
  have a: "ffprobe videoEnv = Some \<lparr>streams = [exampleStream], format = Some exampleFormat\<rparr>"
    by (simp add: videoEnv_def)
  have b: "format \<lparr>streams = [exampleStream], format = Some exampleFormat\<rparr> = Some exampleFormat"
    by simp
  have c: "streamHasTags (streams \<lparr>streams = [exampleStream], format = Some exampleFormat\<rparr>)"
    by (simp add: streamHasTags_def firstVideoStream_def exampleStream_def)
  have s: "streamCreation videoEnv [exampleStream] = Some 1620284889000"
    by (simp add: streamCreation_def firstVideoStream_def exampleStream_def parseTag_def
          videoEnv_def plainEnv_def exampleDateParse_def)
  have f: "formatCreation videoEnv exampleFormat = Some 1646370367000"
    by (simp add: formatCreation_def exampleFormat_def parseTag_def
          videoEnv_def plainEnv_def exampleDateParse_def)
  from video_creation_order [OF a b c] s f show ?thesis by simp
qed

text \<open>
  C6 as the spec states it fails when both tags parse: the stream tag is read as
  1620284889000, the container-format tag as 1646370367000, and the creation time of
  the record is not the stream's.
\<close>

theorem video_creation_counterexample:
  "streamCreation videoEnv (streams \<lparr>streams = [exampleStream], format = Some exampleFormat\<rparr>)
     = Some 1620284889000 \<and>
   formatCreation videoEnv exampleFormat = Some 1646370367000 \<and>
   ffprobe videoEnv = Some \<lparr>streams = [exampleStream], format = Some exampleFormat\<rparr> \<and>
   creationDate (loadVideoMetadata videoEnv) \<noteq> Some 1620284889000"
  by (simp add: loadVideoMetadata_def videoEnv_def plainEnv_def exampleStream_def exampleFormat_def
      initialVideoMetadata_def statSection_def readStream_def readFormat_def passes_def msOf_def
      nonzero_def parseTag_def exampleDateParse_def streamCreation_def formatCreation_def
      firstVideoStream_def)

subsection \<open>The size, the creation date and the keywords of a photo\<close>

text \<open>
  Where the size is at least 1 x 1: in every run of \<open>loadPhotoMetadata\<close> that reaches the
  repair of lines 424-433, that is, when the header is read, exifr answers, and the
  creation date does not throw.
\<close>

lemma creationSection_runs:
  "\<not> creationThrows x \<Longrightarrow> \<exists>t. creationSection env e x m = Normal t"
  by (cases "DateTimeOriginal x"; cases "CreateDate x")
     (auto simp: creationThrows_def creationSection_def timestampToMS_def setCreation_def
           Let_def split: option.splits)

lemma exifHead_runs: "creationRuns e \<Longrightarrow> \<exists>t. exifHead env e m = Normal t"
proof (cases "exif e")
  case None
  then show ?thesis by (simp add: exifHead_def)
next
  case (Some x)
  assume "creationRuns e"
  with Some have "\<not> creationThrows x" by (simp add: creationRuns_def)
  from creationSection_runs [OF this, of env e "ifd0Section e (dcSection e m)"] Some
  show ?thesis by (auto simp: exifHead_def)
qed

lemma fixSize_atLeastOne: "imageSizeValid env \<Longrightarrow> sizeAtLeastOne (fixSize env m)"
  by (auto simp: fixSize_def imageSizeValid_def sizeAtLeastOne_def split: option.splits)

lemma swapSides_atLeastOne: "sizeAtLeastOne m \<Longrightarrow> sizeAtLeastOne (swapSides orientation m)"
  by (simp add: swapSides_def sizeAtLeastOne_def)

lemma size_xmpSection: "size' (xmpSection e m) = size' m"
  by (simp add: xmpSection_def split: option.splits)

lemma size_facesSection: "size' (caught (facesSection env e orientation m)) = size' m"
  by (simp add: facesSection_def Let_def split: option.splits)

lemma readSidecar_size: "size' (caught (readSidecar d m)) = size' m"
  by (simp add: readSidecar_def Let_def split: option.splits)

lemma mergeSidecars_size: "size' (caught (mergeSidecars cs m)) = size' m"
proof (induction cs m rule: mergeSidecars.induct)
  case (5 sidecarData rest m)
  show ?case
  proof (cases "readSidecar sidecarData m")
    case (Normal t)
    with 5 [OF Normal] readSidecar_size [of sidecarData m] show ?thesis by simp
  next
    case (Thrown t)
    with readSidecar_size [of sidecarData m] show ?thesis by simp
  qed
qed simp_all

lemma size_at_least_one_when_exif_runs:
  assumes "header_read env" and "exifr_parse env = Some e" and "creationRuns e"
    and "imageSizeValid env"
  shows "sizeAtLeastOne (loadPhotoMetadata env)"
proof -
  define m1 where "m1 = iptcSection (iptc env) (statSection (file_stat env) initialPhotoMetadata)"
  from exifHead_runs [OF assms(3), of env m1] obtain m3 where
    m3: "exifHead env e m1 = Normal m3" by blast
  define m4 where "m4 = swapSides (orientationOf e) (fixSize env (gpsSection env e m3))"
  have "sizeAtLeastOne m4"
    unfolding m4_def by (intro swapSides_atLeastOne fixSize_atLeastOne assms(4))
  moreover have "size' (loadPhotoMetadata env) = size' m4"
    using assms(1,2) m3
    by (simp add: loadPhotoMetadata_def Let_def m1_def [symmetric] exifBlock_def
          mergeSidecars_size zeroIfFalsy_def size_facesSection size_xmpSection m4_def)
  ultimately show ?thesis by (simp add: sizeAtLeastOne_def)
qed

text \<open>
  C1 at the failing inputs. A photo whose header cannot be read gets \<open>EMPTY_METADATA\<close>,
  whose size is 0 x 0; and a photo in which exifr finds nothing gets the size 0 x 0 as
  well, although the header was read and \<open>imageSize\<close> would have answered 640 x 480: the
  exception ends the block before the size is repaired.
\<close>

theorem loadPhotoMetadata_size_zero:
  "size' (loadPhotoMetadata unreadableEnv) = \<lparr>width = 0, height = 0\<rparr> \<and>
   header_read plainEnv \<and> imageSize plainEnv = Some (640, 480) \<and>
   size' (loadPhotoMetadata plainEnv) = \<lparr>width = 0, height = 0\<rparr>"
  by (simp add: loadPhotoMetadata_def unreadableEnv_def plainEnv_def EMPTY_METADATA_def
      initialPhotoMetadata_def statSection_def iptcSection_def exifBlock_def exifHead_def zeroIfFalsy_def)

text \<open>
  The two sub-cases of CreateDate. With OffsetTimeDigitized, the creation date is read
  from CreateDate and that offset; without it, and with no DateTimeOriginal property, the
  creation date throws.
\<close>

lemma creationSection_CreateDate_fallback:
  assumes "DateTimeOriginal x = None" and "truthy_string (CreateDate x)"
    and "\<not> truthy_string (OffsetTimeDigitized x)"
  shows "creationSection env e x m = Thrown m"
  using assms by (simp add: creationSection_def timestampToMS_def setCreation_def)

lemma creationSection_CreateDate_own_offset:
  assumes "\<not> truthy_string (DateTimeOriginal x)" and "truthy_string (CreateDate x)"
    and "truthy_string (OffsetTimeDigitized x)"
  shows "creationSection env e x m =
           setCreation (timestampToMS env (CreateDate x) (OffsetTimeDigitized x))
             (OffsetTimeDigitized x) m"
  using assms by (simp add: creationSection_def)

text \<open>
  C3 at the failing input. The exif section holds CreateDate \<open>2020:01:02 03:04:05\<close> and
  neither DateTimeOriginal nor an offset. \<open>timestampToMS\<close> of the CreateDate would give
  1577934245000; the record keeps the mtime of the file, 1700000000000, because the code
  passes DateTimeOriginal, which is \<open>undefined\<close>, and the TypeError ends the exif block.
\<close>

theorem loadPhotoMetadata_CreateDate_unused:
  "timestampToMS createDateEnv (Some ''2020:01:02 03:04:05'') None = Inr (Some 1577934245000) \<and>
   creationDate (loadPhotoMetadata createDateEnv) = Some 1700000000000"
  by (simp add: loadPhotoMetadata_def createDateEnv_def plainEnv_def 
      initialPhotoMetadata_def statSection_def iptcSection_def exifBlock_def exifHead_def zeroIfFalsy_def
      noExif_def noExifTags_def dcSection_def ifd0Section_def creationSection_def orientationOf_def
      or_string_def getTimeOffsetByGPSStamp_def timestampToMS_def setCreation_def
      exampleDateParse_def)

text \<open>
  Where the keywords are distinct: whenever the keyword array of the IPTC section holds
  no entry twice. The dc section, the sidecars and the removal of face names keep them so.
\<close>

lemma addKeywords_distinct: "distinct kws \<Longrightarrow> distinct (addKeywords kws ks)"
  by (induction ks arbitrary: kws) auto

lemma keywordsDistinct_same:
  "keywords' a = keywords' b \<Longrightarrow> keywordsDistinct a = keywordsDistinct b"
  by (simp add: keywordsDistinct_def)

lemma keywordsDistinct_add:
  "keywordsDistinct m \<Longrightarrow>
   keywordsDistinct (m\<lparr>keywords' := Some (addKeywords (keywordsOrEmpty m) ks)\<rparr>)"
  by (simp add: keywordsDistinct_def keywordsOrEmpty_def addKeywords_distinct
        split: option.splits)

lemma keywordsDistinct_readSidecar:
  "keywordsDistinct m \<Longrightarrow> keywordsDistinct (caught (readSidecar d m))"
  by (auto simp: readSidecar_def Let_def keywordsDistinct_def keywordsOrEmpty_def
        addKeywords_distinct split: option.splits)

lemma keywordsDistinct_mergeSidecars:
  "keywordsDistinct m \<Longrightarrow> keywordsDistinct (caught (mergeSidecars cs m))"
proof (induction cs m rule: mergeSidecars.induct)
  case (5 sidecarData rest m)
  show ?case
  proof (cases "readSidecar sidecarData m")
    case (Normal t)
    with keywordsDistinct_readSidecar [OF "5.prems", of sidecarData]
    have "keywordsDistinct t" by simp
    with "5.IH" [OF Normal] Normal show ?thesis by simp
  next
    case (Thrown t)
    with keywordsDistinct_readSidecar [OF "5.prems", of sidecarData] show ?thesis by simp
  qed
qed simp_all

lemma keywords_statSection: "keywords' (statSection st m) = keywords' m"
  by (simp add: statSection_def split: option.splits prod.splits)

lemma keywords_whenString:
  "(\<And>s m. keywords' (f s m) = keywords' m) \<Longrightarrow> keywords' (whenString tag f m) = keywords' m"
  by (simp add: whenString_def split: option.splits)

lemma keywordsDistinct_iptcSection:
  "iptc env = parsed \<Longrightarrow> iptcKeywordsDistinct env \<Longrightarrow> keywordsDistinct m \<Longrightarrow>
   keywordsDistinct (iptcSection parsed m)"
  by (auto simp: iptcSection_def Let_def keywords_whenString keywordsDistinct_def
        iptcKeywordsDistinct_def split: option.splits subject_value.splits)

lemma keywordsDistinct_dcSection:
  "keywordsDistinct m \<Longrightarrow> keywordsDistinct (dcSection e m)"
  by (auto simp: dcSection_def keywordsDistinct_def keywordsOrEmpty_def addKeywords_distinct
        split: option.splits subject_value.splits)

lemma keywords_setWidth: "keywords' (setWidth tag m) = keywords' m"
  by (simp add: setWidth_def split: option.splits)

lemma keywords_setHeight: "keywords' (setHeight tag m) = keywords' m"
  by (simp add: setHeight_def split: option.splits)

lemma keywords_ifd0Section: "keywords' (ifd0Section e m) = keywords' m"
  by (simp add: ifd0Section_def Let_def keywords_whenString keywords_setWidth
        keywords_setHeight split: option.splits)

lemma keywords_setCreation: "keywords' (caught (setCreation ms off m)) = keywords' m"
  by (simp add: setCreation_def split: sum.splits)

lemma keywords_creationSection: "keywords' (caught (creationSection env e x m)) = keywords' m"
  by (simp add: creationSection_def Let_def keywords_setCreation split: option.splits)

lemma keywords_cameraSection: "keywords' (cameraSection env x m) = keywords' m"
  by (simp add: cameraSection_def Let_def keywords_whenString keywords_setWidth
        keywords_setHeight)

lemma keywords_gpsSection: "keywords' (gpsSection env e m) = keywords' m"
  by (simp add: gpsSection_def Let_def split: option.splits)

lemma keywords_fixSize: "keywords' (fixSize env m) = keywords' m"
  by (simp add: fixSize_def split: option.splits prod.splits)

lemma keywords_swapSides: "keywords' (swapSides orientation m) = keywords' m"
  by (simp add: swapSides_def)

lemma keywords_xmpSection: "keywords' (xmpSection e m) = keywords' m"
  by (simp add: xmpSection_def split: option.splits)

lemma distinct_remove_faces:
  "distinct kws \<Longrightarrow> distinct (fold (\<lambda>f. remove1 (face_name f)) found kws)"
  by (induction found arbitrary: kws) auto

lemma keywordsDistinct_facesSection:
  "keywordsDistinct m \<Longrightarrow> keywordsDistinct (caught (facesSection env e orientation m))"
  by (auto simp: facesSection_def Let_def keywordsDistinct_def distinct_remove_faces
        split: option.splits)

lemma keywordsDistinct_exifHead:
  assumes "keywordsDistinct m"
  shows "keywordsDistinct (caught (exifHead env e m))"
proof -
  have m1: "keywordsDistinct (ifd0Section e (dcSection e m))"
    using keywordsDistinct_dcSection [OF assms, of e]
    by (simp add: keywordsDistinct_def keywords_ifd0Section)
  show ?thesis
  proof (cases "exif e")
    case None
    with m1 show ?thesis by (simp add: exifHead_def)
  next
    case (Some x)
    show ?thesis
    proof (cases "creationSection env e x (ifd0Section e (dcSection e m))")
      case (Normal m2)
      with keywords_creationSection [of env e x "ifd0Section e (dcSection e m)"] m1 Some
      show ?thesis by (simp add: exifHead_def keywordsDistinct_def keywords_cameraSection)
    next
      case (Thrown t)
      with keywords_creationSection [of env e x "ifd0Section e (dcSection e m)"] m1 Some
      show ?thesis by (simp add: exifHead_def keywordsDistinct_def)
    qed
  qed
qed

lemma keywordsDistinct_exifBlock:
  assumes "keywordsDistinct m"
  shows "keywordsDistinct (caught (exifBlock env m))"
proof (cases "exifr_parse env")
  case None
  with assms show ?thesis by (simp add: exifBlock_def)
next
  case (Some e)
  show ?thesis
  proof (cases "exifHead env e m")
    case (Thrown t)
    with keywordsDistinct_exifHead [OF assms, of env e] Some show ?thesis
      by (simp add: exifBlock_def)
  next
    case (Normal m3)
    with keywordsDistinct_exifHead [OF assms, of env e] have "keywordsDistinct m3" by simp
    then have "keywordsDistinct
                 (xmpSection e (swapSides (orientationOf e) (fixSize env (gpsSection env e m3))))"
      by (simp add: keywordsDistinct_def keywords_xmpSection keywords_swapSides keywords_fixSize
            keywords_gpsSection)
    from keywordsDistinct_facesSection [OF this] Some Normal show ?thesis
      by (simp add: exifBlock_def)
  qed
qed

lemma keywords_distinct_unless_iptc_repeats:
  assumes "iptcKeywordsDistinct env"
  shows "keywordsDistinct (loadPhotoMetadata env)"
proof (cases "header_read env")
  case False
  then show ?thesis by (simp add: loadPhotoMetadata_def EMPTY_METADATA_def keywordsDistinct_def)
next
  case True
  have "keywordsDistinct (statSection (file_stat env) initialPhotoMetadata)"
    by (simp add: keywordsDistinct_def keywords_statSection initialPhotoMetadata_def)
  from keywordsDistinct_iptcSection [OF refl assms this]
  have "keywordsDistinct (caught (exifBlock env
          (iptcSection (iptc env) (statSection (file_stat env) initialPhotoMetadata))))"
    by (rule keywordsDistinct_exifBlock)
  then have "keywordsDistinct (zeroIfFalsy (caught (exifBlock env
          (iptcSection (iptc env) (statSection (file_stat env) initialPhotoMetadata)))))"
    by (simp add: keywordsDistinct_def zeroIfFalsy_def)
  from keywordsDistinct_mergeSidecars [OF this] True show ?thesis
    by (simp add: loadPhotoMetadata_def Let_def)
qed

text \<open>
  C8 at the failing input. The IPTC section lists the keyword \<open>sea\<close> twice, and the record
  holds it twice: the keywords of the IPTC section are assigned as they are.
\<close>

theorem loadPhotoMetadata_keywords_repeated:
  "keywords' (loadPhotoMetadata repeatedKeywordEnv) = Some [''sea'', ''sea'']"
  by (simp add: loadPhotoMetadata_def repeatedKeywordEnv_def plainEnv_def 
      initialPhotoMetadata_def statSection_def iptcSection_def exifBlock_def exifHead_def zeroIfFalsy_def
      noExif_def noIptc_def dcSection_def ifd0Section_def orientationOf_def whenString_def
      gpsSection_def fixSize_def swapSides_def xmpSection_def facesSection_def)

subsection \<open>The box of a face\<close>

lemma createFaceBox_example:
  "createFaceBox 1 \<lparr>width = 1000, height = 800\<rparr>
     (Some (1 / 5)) (Some (1 / 10)) (Some (1 / 2)) (Some (1 / 2))
   = \<lparr>box_width = Some 200, box_height = Some 80, box_left = Some 500, box_top = Some 400\<rparr>"
  by (simp add: createFaceBox_def Math_round_def swapX_def swapY_def)

lemma centerToCorner_example:
  "centerToCorner
     \<lparr>box_width = Some 200, box_height = Some 80, box_left = Some 500, box_top = Some 400\<rparr>
   = \<lparr>box_width = Some 200, box_height = Some 80, box_left = Some 400, box_top = Some 360\<rparr>"
  by (simp add: centerToCorner_def cornerOf_def Math_round_def)

lemma readRegion_example:
  "readRegion 1 \<lparr>width = 1000, height = 800\<rparr>
     \<lparr>rdf_Description = None, region_Name = Some ''Ann'', region_Type = Some ''Face'',
      region_Area = Some faceArea\<rparr>
   = FaceFound \<lparr>face_name = ''Ann'',
       face_box = \<lparr>box_width = Some 200, box_height = Some 80, box_left = Some 400,
                   box_top = Some 360\<rparr>\<rparr>"
  by (simp add: readRegion_def faceOf_def faceArea_def createFaceBox_example
        centerToCorner_example)

text \<open>
  C9, as the code has it. For the ratio box w = 0.2, h = 0.1, x = 0.5, y = 0.5 on an
  image of 1000 x 800 at orientation 1, \<open>createFaceBox\<close> gives the center-anchored box of
  width 200, height 80, left 500, top 400, and the corner-anchored box is left 400,
  top 360, width 200, height 80; it is the box of the face in the record that
  \<open>loadPhotoMetadata\<close> returns.
\<close>

theorem face_box_conversion:
  "createFaceBox 1 \<lparr>width = 1000, height = 800\<rparr>
     (Some (1 / 5)) (Some (1 / 10)) (Some (1 / 2)) (Some (1 / 2))
   = \<lparr>box_width = Some 200, box_height = Some 80, box_left = Some 500, box_top = Some 400\<rparr> \<and>
   centerToCorner (createFaceBox 1 \<lparr>width = 1000, height = 800\<rparr>
     (Some (1 / 5)) (Some (1 / 10)) (Some (1 / 2)) (Some (1 / 2)))
   = \<lparr>box_width = Some 200, box_height = Some 80, box_left = Some 400, box_top = Some 360\<rparr> \<and>
   faces (loadPhotoMetadata faceEnv)
   = Some [\<lparr>face_name = ''Ann'',
            face_box = \<lparr>box_width = Some 200, box_height = Some 80, box_left = Some 400,
                        box_top = Some 360\<rparr>\<rparr>]"
proof -
  have "faces (loadPhotoMetadata faceEnv)
        = Some [\<lparr>face_name = ''Ann'',
                 face_box = \<lparr>box_width = Some 200, box_height = Some 80, box_left = Some 400,
                             box_top = Some 360\<rparr>\<rparr>]"
    by (simp add: loadPhotoMetadata_def faceEnv_def plainEnv_def
          initialPhotoMetadata_def statSection_def iptcSection_def exifBlock_def exifHead_def zeroIfFalsy_def
          noExif_def dcSection_def ifd0Section_def orientationOf_def whenString_def
          setWidth_def setHeight_def gpsSection_def fixSize_def swapSides_def xmpSection_def
          facesSection_def readRegion_example)
  then show ?thesis
    by (simp add: createFaceBox_example centerToCorner_example)
qed

text \<open>
  C9 as the spec states it fails: the center-anchored box is not at left 400, top 360,
  and the corner-anchored box is not at left 300, top 320.
\<close>

theorem face_box_counterexample:
  "createFaceBox 1 \<lparr>width = 1000, height = 800\<rparr>
     (Some (1 / 5)) (Some (1 / 10)) (Some (1 / 2)) (Some (1 / 2))
   \<noteq> \<lparr>box_width = Some 200, box_height = Some 80, box_left = Some 400, box_top = Some 360\<rparr> \<and>
   centerToCorner (createFaceBox 1 \<lparr>width = 1000, height = 800\<rparr>
     (Some (1 / 5)) (Some (1 / 10)) (Some (1 / 2)) (Some (1 / 2)))
   \<noteq> \<lparr>box_width = Some 200, box_height = Some 80, box_left = Some 300, box_top = Some 320\<rparr>"
  by (simp add: createFaceBox_example centerToCorner_example)

end
